theory Spec2Isabelle
  imports Main "HOL-Library.Sublist"
begin

section \<open>The event subscriber of \<^verbatim>\<open>axevent/custome_subscribe.py\<close>\<close>

text \<open>
  The script has one function, \<^verbatim>\<open>subscribe_to_events\<close>. It prints a banner, issues one
  streaming HTTP request, and then handles the response body line by line. Everything it
  does to the outside is recorded here as a list of actions, in the order the code
  performs them. What the function cannot decide itself is a parameter of the model: the
  answer of \<^verbatim>\<open>requests.get\<close>, the result of \<^verbatim>\<open>json.loads\<close>, whether the standard output
  takes a text, and which code points the interpreter counts as printable.
\<close>

subsection \<open>Python values\<close>

text \<open>
  A Python \<^verbatim>\<open>str\<close> is a sequence of Unicode code points, so it is a list of naturals
  here; \<open>ascii\<close> turns an ASCII literal into one. The emoji of the source's messages are
  written as their code points.
\<close>

type_synonym pystr = "nat list"

definition ascii :: "string \<Rightarrow> pystr" where
  "ascii s = map of_char s"

text \<open>
  What \<^verbatim>\<open>json.loads\<close> can return. The program never computes with a float, it only
  shows it, and a Python float is determined by its \<^verbatim>\<open>repr\<close>; so \<open>JFloat\<close> holds that
  text. A dict is the list of its items in order (its keys are distinct; \<open>map_of\<close> reads
  it).
\<close>

datatype json =
    JNull
  | JBool bool
  | JInt int
  | JFloat pystr
  | JStr pystr
  | JList "json list"
  | JDict "(pystr \<times> json) list"

text \<open>
  The exceptions that can arise, each with the text \<^verbatim>\<open>str(e)\<close> gives it. \<open>Exception\<close>
  stands for every other class derived from Python's \<^verbatim>\<open>Exception\<close> (connection errors,
  timeouts, HTTP errors, a broken pipe, ...). \<^verbatim>\<open>KeyboardInterrupt\<close> derives from
  \<^verbatim>\<open>BaseException\<close> only. A \<^verbatim>\<open>JSONDecodeError\<close> is a \<^verbatim>\<open>ValueError\<close> in Python, but not the
  other way round: \<open>ValueError\<close> here is one that is no \<^verbatim>\<open>JSONDecodeError\<close>.
\<close>

datatype exn =
    KeyboardInterrupt
  | JSONDecodeError pystr
  | AttributeError pystr
  | TypeError pystr
  | ValueError pystr
  | RecursionError pystr
  | UnicodeEncodeError pystr
  | Exception pystr

fun is_Exception :: "exn \<Rightarrow> bool" where
  "is_Exception KeyboardInterrupt = False"
| "is_Exception (JSONDecodeError m) = True"
| "is_Exception (AttributeError m) = True"
| "is_Exception (TypeError m) = True"
| "is_Exception (ValueError m) = True"
| "is_Exception (RecursionError m) = True"
| "is_Exception (UnicodeEncodeError m) = True"
| "is_Exception (Exception m) = True"

fun is_JSONDecodeError :: "exn \<Rightarrow> bool" where
  "is_JSONDecodeError (JSONDecodeError m) = True"
| "is_JSONDecodeError e = False"

fun str_exn :: "exn \<Rightarrow> pystr" where
  "str_exn KeyboardInterrupt = []"
| "str_exn (JSONDecodeError m) = m"
| "str_exn (AttributeError m) = m"
| "str_exn (TypeError m) = m"
| "str_exn (ValueError m) = m"
| "str_exn (RecursionError m) = m"
| "str_exn (UnicodeEncodeError m) = m"
| "str_exn (Exception m) = m"

fun type_name :: "json \<Rightarrow> pystr" where
  "type_name JNull = ascii ''NoneType''"
| "type_name (JBool b) = ascii ''bool''"
| "type_name (JInt i) = ascii ''int''"
| "type_name (JFloat f) = ascii ''float''"
| "type_name (JStr s) = ascii ''str''"
| "type_name (JList xs) = ascii ''list''"
| "type_name (JDict kvs) = ascii ''dict''"

definition quoted :: "pystr \<Rightarrow> pystr" where
  "quoted s = [39] @ s @ [39]"

text \<open>
  \<^verbatim>\<open>obj.get(key, default)\<close>: only a dict has the method; on any other value the
  attribute lookup raises \<^verbatim>\<open>AttributeError\<close>.
\<close>

definition dict_get :: "(pystr \<times> json) list \<Rightarrow> pystr \<Rightarrow> json \<Rightarrow> json" where
  "dict_get kvs key dflt = (case map_of kvs key of Some v \<Rightarrow> v | None \<Rightarrow> dflt)"

fun py_get :: "json \<Rightarrow> pystr \<Rightarrow> json \<Rightarrow> exn + json" where
  "py_get (JDict kvs) key dflt = Inr (dict_get kvs key dflt)"
| "py_get obj key dflt =
     Inl (AttributeError (quoted (type_name obj) @ ascii '' object has no attribute '' @ quoted (ascii ''get'')))"

text \<open>
  \<^verbatim>\<open>needle in obj\<close> for a \<^verbatim>\<open>str\<close> needle: a substring test on a str, membership
  among the elements of a list or the keys of a dict, and \<^verbatim>\<open>TypeError\<close> on a value that
  is no container (CPython versions word the message differently; no property below
  depends on its text).
\<close>

fun py_in :: "pystr \<Rightarrow> json \<Rightarrow> exn + bool" where
  "py_in needle (JStr s) = Inr (sublist needle s)"
| "py_in needle (JList xs) = Inr (JStr needle \<in> set xs)"
| "py_in needle (JDict kvs) = Inr (needle \<in> fst ` set kvs)"
| "py_in needle obj =
     Inl (TypeError (ascii ''argument of type '' @ quoted (type_name obj) @ ascii '' is not iterable''))"

text \<open>\<^verbatim>\<open>str.isspace\<close> for one code point, and \<^verbatim>\<open>str.strip()\<close>.\<close>

definition isspace :: "nat \<Rightarrow> bool" where
  "isspace c \<longleftrightarrow>
     (9 \<le> c \<and> c \<le> 13) \<or> (28 \<le> c \<and> c \<le> 32) \<or> c = 0x85 \<or> c = 0xA0 \<or> c = 0x1680 \<or>
     (0x2000 \<le> c \<and> c \<le> 0x200A) \<or> c = 0x2028 \<or> c = 0x2029 \<or> c = 0x202F \<or> c = 0x205F \<or>
     c = 0x3000"

definition strip :: "pystr \<Rightarrow> pystr" where
  "strip s = rev (dropWhile isspace (rev (dropWhile isspace s)))"

subsection \<open>The text of a value\<close>

text \<open>
  \<^verbatim>\<open>str\<close> of an int: the decimal digits, after a minus sign for a negative number.
\<close>

fun digits :: "nat \<Rightarrow> pystr" where
  "digits n = (if n < 10 then [48 + n] else digits (n div 10) @ [48 + n mod 10])"

declare digits.simps [simp del]

definition str_int :: "int \<Rightarrow> pystr" where
  "str_int i = (if i < 0 then 45 # digits (nat (- i)) else digits (nat i))"

text \<open>Lower-case hexadecimal digits, for the escapes of \<^verbatim>\<open>repr\<close>.\<close>

definition hex_digit :: "nat \<Rightarrow> nat" where
  "hex_digit d = (if d < 10 then 48 + d else 87 + d)"

fun hex :: "nat \<Rightarrow> nat \<Rightarrow> pystr" where
  "hex 0 c = []"
| "hex (Suc k) c = hex k (c div 16) @ [hex_digit (c mod 16)]"

text \<open>
  \<^verbatim>\<open>repr\<close> of a str, as CPython builds it. The quote is \<^verbatim>\<open>'\<close>, or \<^verbatim>\<open>"\<close> when the text holds
  a \<^verbatim>\<open>'\<close> and no \<^verbatim>\<open>"\<close>. The quote and the backslash are escaped, tab, newline and
  carriage return are written \<^verbatim>\<open>\t\<close>, \<^verbatim>\<open>\n\<close>, \<^verbatim>\<open>\r\<close>, other ASCII control characters as
  \<^verbatim>\<open>\xhh\<close>, and a code point from 128 on is kept when it is printable and escaped as
  \<^verbatim>\<open>\xhh\<close>, \<^verbatim>\<open>\uhhhh\<close> or \<^verbatim>\<open>\Uhhhhhhhh\<close> otherwise. Which of those code points are
  printable is a fact of the interpreter's Unicode tables: the parameter \<open>pr\<close>.
\<close>

definition escape :: "(nat \<Rightarrow> bool) \<Rightarrow> nat \<Rightarrow> nat \<Rightarrow> pystr" where
  "escape pr quote c =
     (if c = quote \<or> c = 92 then [92, c]
      else if c = 9 then [92, 116]
      else if c = 10 then [92, 110]
      else if c = 13 then [92, 114]
      else if c < 32 \<or> c = 127 then [92, 120] @ hex 2 c
      else if c < 127 then [c]
      else if pr c then [c]
      else if c \<le> 0xFF then [92, 120] @ hex 2 c
      else if c \<le> 0xFFFF then [92, 117] @ hex 4 c
      else [92, 85] @ hex 8 c)"

definition str_repr :: "(nat \<Rightarrow> bool) \<Rightarrow> pystr \<Rightarrow> pystr" where
  "str_repr pr s =
     (let quote = (if 39 \<in> set s \<and> 34 \<notin> set s then 34 else 39)
      in [quote] @ concat (map (escape pr quote) s) @ [quote])"

fun join :: "pystr \<Rightarrow> pystr list \<Rightarrow> pystr" where
  "join sep [] = []"
| "join sep [x] = x"
| "join sep (x # y # ys) = x @ sep @ join sep (y # ys)"

text \<open>\<^verbatim>\<open>repr\<close> of a value: a list and a dict show the repr of what they hold.\<close>

fun py_repr :: "(nat \<Rightarrow> bool) \<Rightarrow> json \<Rightarrow> pystr" where
  "py_repr pr JNull = ascii ''None''"
| "py_repr pr (JBool b) = (if b then ascii ''True'' else ascii ''False'')"
| "py_repr pr (JInt i) = str_int i"
| "py_repr pr (JFloat f) = f"
| "py_repr pr (JStr s) = str_repr pr s"
| "py_repr pr (JList xs) = ascii ''['' @ join (ascii '', '') (map (py_repr pr) xs) @ ascii '']''"
| "py_repr pr (JDict kvs) =
     ascii ''{'' @
     join (ascii '', '') (map (\<lambda>(k, v). str_repr pr k @ ascii '': '' @ py_repr pr v) kvs) @
     ascii ''}''"

text \<open>
  An f-string field \<^verbatim>\<open>{v}\<close> shows \<^verbatim>\<open>str(v)\<close>: a str as it is, any other value as its repr.
\<close>

fun py_str :: "(nat \<Rightarrow> bool) \<Rightarrow> json \<Rightarrow> pystr" where
  "py_str pr (JStr s) = s"
| "py_str pr v = py_repr pr v"

text \<open>
  \<^verbatim>\<open>repr\<close> of a bytes object, which is also its \<^verbatim>\<open>str\<close>: \<^verbatim>\<open>b\<close>, a quote chosen as for a
  str, and every byte outside the printable ASCII range as \<^verbatim>\<open>\xhh\<close>.
\<close>

definition escape_byte :: "nat \<Rightarrow> nat \<Rightarrow> pystr" where
  "escape_byte quote c =
     (if c = quote \<or> c = 92 then [92, c]
      else if c = 9 then [92, 116]
      else if c = 10 then [92, 110]
      else if c = 13 then [92, 114]
      else if c < 32 \<or> 127 \<le> c then [92, 120] @ hex 2 c
      else [c])"

definition bytes_repr :: "string \<Rightarrow> pystr" where
  "bytes_repr b =
     (let s = map of_char b;
          quote = (if 39 \<in> set s \<and> 34 \<notin> set s then 34 else 39)
      in [98, quote] @ concat (map (escape_byte quote) s) @ [quote])"

subsection \<open>The outside world\<close>

datatype auth = HTTPDigestAuth pystr pystr

record request =
  url :: pystr
  params :: "(pystr \<times> pystr) list"
  auth :: auth
  stream :: bool
  timeout :: nat

text \<open>
  A line as \<^verbatim>\<open>response.iter_lines(decode_unicode=True)\<close> yields it: a str when the response
  names an encoding, and the raw bytes when it names none (the code does not set one).
\<close>

datatype line = Str pystr | Bytes string

text \<open>
  What the iterator delivers: the next line, the end of the body, or an exception raised
  while waiting for data (a transport error, or the keyboard interrupt). A body may go on
  for ever.
\<close>

codatatype lines = Exhausted | Yield line lines | Throw exn

record response =
  http_error :: "exn option"
  body :: lines

text \<open>
  The actions of the program, in order: a \<^verbatim>\<open>print\<close> call that wrote its text, the HTTP
  request, a call of \<^verbatim>\<open>json.loads\<close> with its argument. \<open>Close\<close> stands for closing the
  response (\<^verbatim>\<open>response.close()\<close>, or leaving a \<^verbatim>\<open>with\<close> block that holds it).
\<close>

datatype action = Print pystr | Get request | Loads pystr | Close

type_synonym trace = "action list"

text \<open>
  What the function depends on:
  \<^item> \<open>requests_get\<close>: the answer of \<^verbatim>\<open>requests.get\<close> to a request, an exception or a
    response; \<open>http_error\<close> of a response is what its \<^verbatim>\<open>raise_for_status()\<close> raises;
  \<^item> \<open>json_loads\<close>: \<^verbatim>\<open>json.loads\<close>;
  \<^item> \<open>stdout\<close>: what \<^verbatim>\<open>print\<close> raises for a text, after the actions done so far, if it
    raises (the output cannot encode the text, the pipe is broken, the user interrupts);
  \<^item> \<open>isprintable\<close>: \<^verbatim>\<open>str.isprintable\<close> on one code point.
\<close>

record runtime =
  requests_get :: "request \<Rightarrow> exn + response"
  json_loads :: "pystr \<Rightarrow> exn + json"
  stdout :: "trace \<Rightarrow> pystr \<Rightarrow> exn option"
  isprintable :: "nat \<Rightarrow> bool"

type_synonym 'a io = "trace \<Rightarrow> (exn + 'a) \<times> trace"

definition return :: "'a \<Rightarrow> 'a io" where
  "return x tr = (Inr x, tr)"

definition bind :: "'a io \<Rightarrow> ('a \<Rightarrow> 'b io) \<Rightarrow> 'b io" where
  "bind m f tr = (case m tr of (Inl e, tr') \<Rightarrow> (Inl e, tr') | (Inr x, tr') \<Rightarrow> f x tr')"

definition lift :: "exn + 'a \<Rightarrow> 'a io" where
  "lift r tr = (r, tr)"

text \<open>\<^verbatim>\<open>print(s)\<close>: the text is written, or the call raises and nothing is recorded.\<close>

definition print :: "runtime \<Rightarrow> pystr \<Rightarrow> unit io" where
  "print rt s tr = (case stdout rt tr s of None \<Rightarrow> (Inr (), tr @ [Print s]) | Some e \<Rightarrow> (Inl e, tr))"

definition loads :: "runtime \<Rightarrow> pystr \<Rightarrow> json io" where
  "loads rt s tr = (json_loads rt s, tr @ [Loads s])"

subsection \<open>The function\<close>

text \<open>Lines 45 to 52: the test on the topic and the detection block.\<close>

definition is_detection :: "json \<Rightarrow> exn + bool" where
  "is_detection topic =
     (case py_in (ascii ''VideoAnalytics'') topic of
        Inl e \<Rightarrow> Inl e
      | Inr a \<Rightarrow> if a then py_in (ascii ''ObjectDetected'') topic else Inr False)"

definition print_field :: "runtime \<Rightarrow> pystr \<Rightarrow> json \<Rightarrow> string \<Rightarrow> unit io" where
  "print_field rt label data key =
     bind (lift (py_get data (ascii key) (JStr (ascii ''N/A''))))
       (\<lambda>v. print rt (label @ py_str (isprintable rt) v))"

definition detection_block :: "runtime \<Rightarrow> json \<Rightarrow> json \<Rightarrow> json \<Rightarrow> unit io" where
  "detection_block rt topic data timestamp =
     bind (print rt ([0x1F3AF] @ ascii '' OBJECT DETECTION EVENT!'')) (\<lambda>_.
     bind (print rt (ascii ''   '' @ [0x23F0] @ ascii '' Time: '' @ py_str (isprintable rt) timestamp)) (\<lambda>_.
     bind (print rt (ascii ''   '' @ [0x1F4C2] @ ascii '' Topic: '' @ py_str (isprintable rt) topic)) (\<lambda>_.
     bind (print_field rt (ascii ''   '' @ [0x1F3F7, 0xFE0F] @ ascii ''  Class: '') data ''ObjectClass'') (\<lambda>_.
     bind (print_field rt (ascii ''   '' @ [0x1F4CA] @ ascii '' Confidence: '') data ''Confidence'') (\<lambda>_.
     bind (print_field rt (ascii ''   '' @ [0x1F4D0] @ ascii '' BBox: '') data ''BoundingBox'') (\<lambda>_.
     print rt (replicate 60 45)))))))"

text \<open>Lines 38 to 52: decoding the payload and reading the three fields of the event.\<close>

definition handle_event :: "runtime \<Rightarrow> pystr \<Rightarrow> unit io" where
  "handle_event rt json_str =
     bind (loads rt json_str) (\<lambda>event_data.
     bind (lift (py_get event_data (ascii ''topic'') (JStr (ascii ''Unknown'')))) (\<lambda>topic.
     bind (lift (py_get event_data (ascii ''data'') (JDict []))) (\<lambda>data.
     bind (lift (py_get event_data (ascii ''@timestamp'') (JStr (ascii ''Unknown'')))) (\<lambda>timestamp.
     bind (lift (is_detection topic)) (\<lambda>hit.
       if hit then detection_block rt topic data timestamp else return ())))))"

text \<open>
  Lines 35 to 55: the inner \<^verbatim>\<open>try\<close>, whose handler takes a \<^verbatim>\<open>JSONDecodeError\<close> and nothing
  else.
\<close>

definition try_json :: "runtime \<Rightarrow> pystr \<Rightarrow> unit io" where
  "try_json rt line tr =
     (let json_str = strip (drop 5 line);
          r = (if json_str \<noteq> [] then handle_event rt json_str tr else return () tr)
      in case r of
           (Inl e, tr') \<Rightarrow> if is_JSONDecodeError e then (Inr (), tr') else (Inl e, tr')
         | (Inr u, tr') \<Rightarrow> (Inr u, tr'))"

text \<open>
  Lines 30 to 55: the body of the \<^verbatim>\<open>for\<close> loop, for one line. An empty str and an empty
  bytes object are both false at line 30. The f-string of line 31 shows a str as it is
  and a bytes object as its repr. On a bytes object, \<^verbatim>\<open>line.startswith('data:')\<close> of line
  34 raises \<^verbatim>\<open>TypeError\<close>, outside the inner \<^verbatim>\<open>try\<close>.
\<close>

fun process_line :: "runtime \<Rightarrow> line \<Rightarrow> unit io" where
  "process_line rt (Str line) =
     (if line \<noteq> [] then
        bind (print rt ([0x1F4E8] @ ascii '' '' @ line)) (\<lambda>_.
          if prefix (ascii ''data:'') line then try_json rt line else return ())
      else return ())"
| "process_line rt (Bytes line) =
     (if line \<noteq> [] then
        bind (print rt ([0x1F4E8] @ ascii '' '' @ bytes_repr line)) (\<lambda>_.
          lift (Inl (TypeError (ascii ''startswith first arg must be bytes or a tuple of bytes, not str''))))
      else return ())"

declare process_line.simps [simp del]

text \<open>
  Line 29, the loop over the lines of the body. The body may never end, so the loop is a
  partial function: \<open>None\<close> is a loop that never leaves.
\<close>

partial_function (option) for_lines :: "runtime \<Rightarrow> lines \<Rightarrow> trace \<Rightarrow> ((exn + unit) \<times> trace) option" where
  "for_lines rt ls tr =
     (case ls of
        Exhausted \<Rightarrow> Some (Inr (), tr)
      | Throw e \<Rightarrow> Some (Inl e, tr)
      | Yield line rest \<Rightarrow>
          (case process_line rt line tr of
             (Inl e, tr') \<Rightarrow> Some (Inl e, tr')
           | (Inr u, tr') \<Rightarrow> for_lines rt rest tr'))"

text \<open>Lines 11 to 17 and 24 to 26: the request.\<close>

definition subscription :: "pystr \<Rightarrow> pystr \<Rightarrow> pystr \<Rightarrow> request" where
  "subscription camera_ip username password =
     \<lparr> url = ascii ''http://'' @ camera_ip @ ascii ''/axis-cgi/event.cgi'',
       params = [(ascii ''action'', ascii ''subscribe''),
                 (ascii ''events'', ascii ''tns1:VideoAnalytics/*'')],
       auth = HTTPDigestAuth username password,
       stream = True,
       timeout = 60 \<rparr>"

text \<open>Lines 24 to 55: the body of the outer \<^verbatim>\<open>try\<close>.\<close>

definition try_body :: "runtime \<Rightarrow> pystr \<Rightarrow> pystr \<Rightarrow> pystr \<Rightarrow> trace \<Rightarrow> ((exn + unit) \<times> trace) option" where
  "try_body rt camera_ip username password tr =
     (let req = subscription camera_ip username password;
          tr1 = tr @ [Get req]
      in case requests_get rt req of
           Inl e \<Rightarrow> Some (Inl e, tr1)
         | Inr resp \<Rightarrow>
             (case http_error resp of
                Some e \<Rightarrow> Some (Inl e, tr1)
              | None \<Rightarrow> for_lines rt (body resp) tr1))"

text \<open>
  Lines 57 to 60: the two handlers of the outer \<^verbatim>\<open>try\<close>. An exception that neither
  handler takes leaves the function, and so does one that a handler's own \<^verbatim>\<open>print\<close>
  raises.
\<close>

definition handlers :: "runtime \<Rightarrow> (exn + unit) \<times> trace \<Rightarrow> (exn + unit) \<times> trace" where
  "handlers rt r =
     (case r of
        (Inr u, tr) \<Rightarrow> (Inr u, tr)
      | (Inl e, tr) \<Rightarrow>
          if e = KeyboardInterrupt then print rt ([10, 0x1F6D1] @ ascii '' Stopped by user'') tr
          else if is_Exception e then print rt ([0x274C] @ ascii '' Error: '' @ str_exn e) tr
          else (Inl e, tr))"

text \<open>Lines 19 to 21: the banner, printed before the \<^verbatim>\<open>try\<close>.\<close>

definition banner :: "runtime \<Rightarrow> pystr \<Rightarrow> unit io" where
  "banner rt camera_ip =
     bind (print rt ([0x1F517] @ ascii '' Subscribing to VideoAnalytics events on '' @ camera_ip)) (\<lambda>_.
     bind (print rt ([0x1F3AF] @ ascii '' Listening for events... (Press Ctrl+C to stop)'')) (\<lambda>_.
     print rt (replicate 60 61)))"

definition subscribe_to_events :: "runtime \<Rightarrow> pystr \<Rightarrow> pystr \<Rightarrow> pystr \<Rightarrow> trace \<Rightarrow> ((exn + unit) \<times> trace) option" where
  "subscribe_to_events rt camera_ip username password tr =
     (case banner rt camera_ip tr of
        (Inl e, tr0) \<Rightarrow> Some (Inl e, tr0)
      | (Inr u, tr0) \<Rightarrow> map_option (handlers rt) (try_body rt camera_ip username password tr0))"

text \<open>
  Line 10 gives \<^verbatim>\<open>username\<close> and \<^verbatim>\<open>password\<close> the defaults \<^verbatim>\<open>"root"\<close> and \<^verbatim>\<open>"pass"\<close>;
  this is the call that leaves both out. Lines 62 to 68, the script itself, make that call
  with a fixed address.
\<close>

definition subscribe_to_events_default :: "runtime \<Rightarrow> pystr \<Rightarrow> trace \<Rightarrow> ((exn + unit) \<times> trace) option" where
  "subscribe_to_events_default rt camera_ip = subscribe_to_events rt camera_ip (ascii ''root'') (ascii ''pass'')"

definition main :: "runtime \<Rightarrow> ((exn + unit) \<times> trace) option" where
  "main rt = subscribe_to_events_default rt (ascii ''169.254.118.229'') []"

subsection \<open>Notions used to state the properties\<close>

text \<open>A body that ends: after finitely many lines it is exhausted or raises.\<close>

inductive ends :: "lines \<Rightarrow> bool" where
  ends_Exhausted: "ends Exhausted"
| ends_Throw: "ends (Throw e)"
| ends_Yield: "ends rest \<Longrightarrow> ends (Yield line rest)"

text \<open>A body that delivers the same line for ever.\<close>

primcorec forever :: "line \<Rightarrow> lines" where
  "forever line = Yield line (forever line)"

fun is_dict :: "json \<Rightarrow> bool" where
  "is_dict (JDict kvs) = True"
| "is_dict v = False"

text \<open>The actions of the loop: printing and decoding.\<close>

fun local_action :: "action \<Rightarrow> bool" where
  "local_action (Print s) = True"
| "local_action (Loads s) = True"
| "local_action a = False"

fun is_Print :: "action \<Rightarrow> bool" where
  "is_Print (Print s) = True"
| "is_Print a = False"

text \<open>The arguments of the \<^verbatim>\<open>json.loads\<close> calls of a trace, in order.\<close>

fun decoded :: "trace \<Rightarrow> pystr list" where
  "decoded [] = []"
| "decoded (Loads s # tr) = s # decoded tr"
| "decoded (a # tr) = decoded tr"

text \<open>A finished run has released the response when its trace holds a \<open>Close\<close>.\<close>

definition released :: "((exn + unit) \<times> trace) option \<Rightarrow> bool" where
  "released res = (case res of None \<Rightarrow> False | Some (r, tr) \<Rightarrow> Close \<in> set tr)"

text \<open>
  The standard output takes a list of texts, printed one after the other from a given
  trace on, when it raises on none of them; it is quiet when it never raises.
\<close>

primrec accepts :: "runtime \<Rightarrow> trace \<Rightarrow> pystr list \<Rightarrow> bool" where
  "accepts rt tr [] = True"
| "accepts rt tr (s # ss) = (stdout rt tr s = None \<and> accepts rt (tr @ [Print s]) ss)"

definition quiet :: "runtime \<Rightarrow> bool" where
  "quiet rt = (\<forall>tr s. stdout rt tr s = None)"

text \<open>The texts of the banner (lines 19 to 21) and of the detection block (lines 46 to 52).\<close>

definition banner_texts :: "pystr \<Rightarrow> pystr list" where
  "banner_texts camera_ip =
     [[0x1F517] @ ascii '' Subscribing to VideoAnalytics events on '' @ camera_ip,
      [0x1F3AF] @ ascii '' Listening for events... (Press Ctrl+C to stop)'',
      replicate 60 61]"

definition banner_lines :: "pystr \<Rightarrow> trace" where
  "banner_lines camera_ip = map Print (banner_texts camera_ip)"

definition block_texts :: "runtime \<Rightarrow> json \<Rightarrow> (pystr \<times> json) list \<Rightarrow> json \<Rightarrow> pystr list" where
  "block_texts rt topic d timestamp =
     [[0x1F3AF] @ ascii '' OBJECT DETECTION EVENT!'',
      ascii ''   '' @ [0x23F0] @ ascii '' Time: '' @ py_str (isprintable rt) timestamp,
      ascii ''   '' @ [0x1F4C2] @ ascii '' Topic: '' @ py_str (isprintable rt) topic,
      ascii ''   '' @ [0x1F3F7, 0xFE0F] @ ascii ''  Class: '' @
        py_str (isprintable rt) (dict_get d (ascii ''ObjectClass'') (JStr (ascii ''N/A''))),
      ascii ''   '' @ [0x1F4CA] @ ascii '' Confidence: '' @
        py_str (isprintable rt) (dict_get d (ascii ''Confidence'') (JStr (ascii ''N/A''))),
      ascii ''   '' @ [0x1F4D0] @ ascii '' BBox: '' @
        py_str (isprintable rt) (dict_get d (ascii ''BoundingBox'') (JStr (ascii ''N/A''))),
      replicate 60 45]"

text \<open>
  A step of the program only does actions of one kind: from any trace, it adds actions of
  that kind and nothing else.
\<close>

definition only_does :: "(action \<Rightarrow> bool) \<Rightarrow> 'a io \<Rightarrow> bool" where
  "only_does P m = (\<forall>tr. \<exists>r acts. m tr = (r, tr @ acts) \<and> list_all P acts)"

text \<open>The value of a decimal numeral, read digit by digit.\<close>

definition value_of :: "pystr \<Rightarrow> nat" where
  "value_of ds = foldl (\<lambda>a d. 10 * a + (d - 48)) 0 ds"

subsection \<open>Runtimes for the examples\<close>

text \<open>
  The examples run the function against a camera that accepts the request and sends a
  given body, a standard output that takes every text, and a decoder that knows a few
  documents and what \<^verbatim>\<open>json.loads\<close> makes of them: the event of the specification's
  example, an event with values of every kind, the number \<^verbatim>\<open>42\<close>, a detection event whose
  \<^verbatim>\<open>data\<close> is a number, an event whose class is a lone surrogate (written as the escape
  \<^verbatim>\<open>\ud800\<close> in the document), and 1100 opening brackets, on which the decoder exceeds
  the recursion limit. Every other text is malformed to it. Its \<open>isprintable\<close> is exact
  on Latin-1; no example holds a code point beyond that inside a container.
\<close>

definition example_payload :: pystr where
  \<open>example_payload = ascii
     ''{"topic":"tns1:VideoAnalytics/ObjectDetected","data":{"ObjectClass":"person","Confidence":"87"},"@timestamp":"12:00:00"}''\<close>

definition example_event :: json where
  "example_event = JDict
     [(ascii ''topic'', JStr (ascii ''tns1:VideoAnalytics/ObjectDetected'')),
      (ascii ''data'', JDict [(ascii ''ObjectClass'', JStr (ascii ''person'')),
                              (ascii ''Confidence'', JStr (ascii ''87''))]),
      (ascii ''@timestamp'', JStr (ascii ''12:00:00''))]"

definition mixed_payload :: pystr where
  \<open>mixed_payload = ascii
     ''{"topic":"tns1:VideoAnalytics/ObjectDetected","data":{"ObjectClass":"car","Confidence":87,"BoundingBox":[10,-20,0.5,true,null,{"a":"b"}]},"@timestamp":1700000000}''\<close>

definition mixed_event :: json where
  "mixed_event = JDict
     [(ascii ''topic'', JStr (ascii ''tns1:VideoAnalytics/ObjectDetected'')),
      (ascii ''data'', JDict
         [(ascii ''ObjectClass'', JStr (ascii ''car'')),
          (ascii ''Confidence'', JInt 87),
          (ascii ''BoundingBox'',
             JList [JInt 10, JInt (- 20), JFloat (ascii ''0.5''), JBool True, JNull,
                    JDict [(ascii ''a'', JStr (ascii ''b''))]])]),
      (ascii ''@timestamp'', JInt 1700000000)]"

definition odd_payload :: pystr where
  \<open>odd_payload = ascii ''{"topic":"VideoAnalytics/ObjectDetected","data":5}''\<close>

definition odd_event :: json where
  "odd_event = JDict
     [(ascii ''topic'', JStr (ascii ''VideoAnalytics/ObjectDetected'')),
      (ascii ''data'', JInt 5)]"

definition surrogate_payload :: pystr where
  \<open>surrogate_payload =
     ascii ''{"topic":"VideoAnalytics/ObjectDetected","data":{"ObjectClass":"'' @ [92] @ ascii ''ud800"}}''\<close>

definition surrogate_event :: json where
  "surrogate_event = JDict
     [(ascii ''topic'', JStr (ascii ''VideoAnalytics/ObjectDetected'')),
      (ascii ''data'', JDict [(ascii ''ObjectClass'', JStr [0xD800])])]"

definition deep_payload :: pystr where
  "deep_payload = replicate 1100 91"

definition demo_loads :: "pystr \<Rightarrow> exn + json" where
  "demo_loads s =
     (if s = example_payload then Inr example_event
      else if s = mixed_payload then Inr mixed_event
      else if s = ascii ''42'' then Inr (JInt 42)
      else if s = odd_payload then Inr odd_event
      else if s = surrogate_payload then Inr surrogate_event
      else if s = deep_payload then Inl (RecursionError (ascii ''maximum recursion depth exceeded''))
      else Inl (JSONDecodeError (ascii ''Expecting value: line 1 column 1 (char 0)'')))"

definition demo :: "lines \<Rightarrow> runtime" where
  "demo b =
     \<lparr> requests_get = (\<lambda>req. Inr \<lparr> http_error = None, body = b \<rparr>),
       json_loads = demo_loads,
       stdout = (\<lambda>tr s. None),
       isprintable = (\<lambda>c. 0xA1 \<le> c \<and> c \<le> 0xFF \<and> c \<noteq> 0xAD) \<rparr>"

text \<open>
  A standard output with a strict codec, as \<^verbatim>\<open>UnicodeEncodeError\<close> reports its failure: the
  first run of code points that the codec cannot encode, with its position. The ASCII
  output refuses every code point from 128 on, the UTF-8 output every surrogate.
\<close>

definition escaped :: "nat \<Rightarrow> pystr" where
  "escaped c =
     (if c \<le> 0xFF then [92, 120] @ hex 2 c
      else if c \<le> 0xFFFF then [92, 117] @ hex 4 c
      else [92, 85] @ hex 8 c)"

definition encode_error :: "pystr \<Rightarrow> (nat \<Rightarrow> bool) \<Rightarrow> pystr \<Rightarrow> pystr \<Rightarrow> exn option" where
  "encode_error codec bad reason s =
     (let pos = length (takeWhile (\<lambda>c. \<not> bad c) s);
          run = takeWhile bad (drop pos s)
      in case run of
           [] \<Rightarrow> None
         | c # cs \<Rightarrow>
             Some (UnicodeEncodeError
               (quoted codec @ ascii '' codec can'' @ [39] @ ascii ''t encode '' @
                (if cs = [] then
                   ascii ''character '' @ quoted (escaped c) @ ascii '' in position '' @ digits pos
                 else
                   ascii ''characters in position '' @ digits pos @ ascii ''-'' @ digits (pos + length cs)) @
                ascii '': '' @ reason)))"

definition ascii_stdout :: "trace \<Rightarrow> pystr \<Rightarrow> exn option" where
  "ascii_stdout tr s = encode_error (ascii ''ascii'') (\<lambda>c. 128 \<le> c) (ascii ''ordinal not in range(128)'') s"

definition utf8_stdout :: "trace \<Rightarrow> pystr \<Rightarrow> exn option" where
  "utf8_stdout tr s =
     encode_error (ascii ''utf-8'') (\<lambda>c. 0xD800 \<le> c \<and> c \<le> 0xDFFF) (ascii ''surrogates not allowed'') s"

section \<open>Properties\<close>

subsection \<open>Numerals\<close>

lemma digits_small: "n < 10 \<Longrightarrow> digits n = [48 + n]"
  by (subst digits.simps) simp

lemma digits_big: "\<not> n < 10 \<Longrightarrow> digits n = digits (n div 10) @ [48 + n mod 10]"
  by (subst digits.simps) simp

lemma hex_numeral: "hex (numeral k) c = hex (pred_numeral k) (c div 16) @ [hex_digit (c mod 16)]"
  by (subst numeral_eq_Suc) (simp only: hex.simps)

subsection \<open>Printing\<close>

lemma print_ok: "stdout rt tr s = None \<Longrightarrow> print rt s tr = (Inr (), tr @ [Print s])"
  by (simp add: print_def)

lemma print_fail: "stdout rt tr s = Some e \<Longrightarrow> print rt s tr = (Inl e, tr)"
  by (simp add: print_def)

lemma quiet_stdout: "quiet rt \<Longrightarrow> stdout rt tr s = None"
  by (simp add: quiet_def)

lemma quiet_accepts: "quiet rt \<Longrightarrow> accepts rt tr ss"
  by (induction ss arbitrary: tr) (simp_all add: quiet_def)

subsection \<open>Steps that only print and decode\<close>

lemma only_doesI:
  "(\<And>tr. \<exists>r acts. m tr = (r, tr @ acts) \<and> list_all P acts) \<Longrightarrow> only_does P m"
  by (simp add: only_does_def)

lemma only_doesD:
  "only_does P m \<Longrightarrow> \<exists>r acts. m tr = (r, tr @ acts) \<and> list_all P acts"
  by (simp add: only_does_def)

lemma only_does_return: "only_does P (return x)"
  by (simp add: only_does_def return_def)

lemma only_does_lift: "only_does P (lift r)"
  by (simp add: only_does_def lift_def)

lemma only_does_print: "only_does is_Print (print rt s)"
proof (rule only_doesI)
  fix tr
  show "\<exists>r acts. print rt s tr = (r, tr @ acts) \<and> list_all is_Print acts"
    by (cases "stdout rt tr s") (simp_all add: print_def)
qed

lemma only_does_bind:
  assumes m: "only_does P m" and f: "\<And>x. only_does P (f x)"
  shows "only_does P (bind m f)"
proof (rule only_doesI)
  fix tr
  from only_doesD[OF m, of tr] obtain r acts
    where mt: "m tr = (r, tr @ acts)" and pa: "list_all P acts" by blast
  show "\<exists>r acts. bind m f tr = (r, tr @ acts) \<and> list_all P acts"
  proof (cases r)
    case (Inl e)
    with mt pa show ?thesis by (auto simp add: bind_def)
  next
    case (Inr x)
    from only_doesD[OF f, of x "tr @ acts"] obtain r' acts'
      where ft: "f x (tr @ acts) = (r', (tr @ acts) @ acts')" and pa': "list_all P acts'" by blast
    from mt Inr ft have "bind m f tr = (r', tr @ (acts @ acts'))"
      by (simp add: bind_def)
    moreover have "list_all P (acts @ acts')"
      using pa pa' by simp
    ultimately show ?thesis by blast
  qed
qed

lemma only_does_mono:
  assumes "only_does P m" and "\<And>a. P a \<Longrightarrow> Q a"
  shows "only_does Q m"
proof (rule only_doesI)
  fix tr
  from only_doesD[OF assms(1), of tr] obtain r acts
    where "m tr = (r, tr @ acts)" and "list_all P acts" by blast
  moreover from this(2) assms(2) have "list_all Q acts"
    by (induction acts) auto
  ultimately show "\<exists>r acts. m tr = (r, tr @ acts) \<and> list_all Q acts" by blast
qed

lemma only_does_detection_block: "only_does is_Print (detection_block rt topic data timestamp)"
  unfolding detection_block_def print_field_def
  by (intro only_does_bind only_does_print only_does_lift)

lemma is_Print_local: "is_Print a \<Longrightarrow> local_action a"
  by (cases a) simp_all

subsection \<open>The loop, unfolded once\<close>

lemma for_lines_Exhausted: "for_lines rt Exhausted tr = Some (Inr (), tr)"
  by (subst for_lines.simps) simp

lemma for_lines_Throw: "for_lines rt (Throw e) tr = Some (Inl e, tr)"
  by (subst for_lines.simps) simp

lemma for_lines_Yield:
  "for_lines rt (Yield line rest) tr =
     (case process_line rt line tr of
        (Inl e, tr') \<Rightarrow> Some (Inl e, tr')
      | (Inr u, tr') \<Rightarrow> for_lines rt rest tr')"
  by (subst for_lines.simps) simp

subsection \<open>One event\<close>

lemma py_get_not_dict:
  "\<not> is_dict obj \<Longrightarrow> py_get obj key dflt =
     Inl (AttributeError (quoted (type_name obj) @ ascii '' object has no attribute '' @ quoted (ascii ''get'')))"
  by (cases obj) simp_all

lemma detection_block_dict:
  "accepts rt tr (block_texts rt topic d timestamp) \<Longrightarrow>
   detection_block rt topic (JDict d) timestamp tr =
     (Inr (), tr @ map Print (block_texts rt topic d timestamp))"
  by (simp add: detection_block_def print_field_def bind_def print_def lift_def block_texts_def)

lemma detection_block_not_dict:
  "\<not> is_dict data \<Longrightarrow> accepts rt tr (take 3 (block_texts rt topic [] timestamp)) \<Longrightarrow>
   detection_block rt topic data timestamp tr =
     (Inl (AttributeError (quoted (type_name data) @ ascii '' object has no attribute '' @ quoted (ascii ''get''))),
      tr @ map Print (take 3 (block_texts rt topic [] timestamp)))"
  by (simp add: detection_block_def print_field_def bind_def print_def lift_def py_get_not_dict block_texts_def)

lemma handle_event_error:
  "json_loads rt s = Inl e \<Longrightarrow> handle_event rt s tr = (Inl e, tr @ [Loads s])"
  by (simp add: handle_event_def bind_def loads_def)

lemma handle_event_not_dict:
  "json_loads rt s = Inr v \<Longrightarrow> \<not> is_dict v \<Longrightarrow> handle_event rt s tr =
     (Inl (AttributeError (quoted (type_name v) @ ascii '' object has no attribute '' @ quoted (ascii ''get''))),
      tr @ [Loads s])"
  by (simp add: handle_event_def bind_def loads_def lift_def py_get_not_dict)

lemma handle_event_dict:
  "json_loads rt s = Inr (JDict kvs) \<Longrightarrow> handle_event rt s tr =
     (case is_detection (dict_get kvs (ascii ''topic'') (JStr (ascii ''Unknown''))) of
        Inl e \<Rightarrow> (Inl e, tr @ [Loads s])
      | Inr hit \<Rightarrow>
          if hit then
            detection_block rt (dict_get kvs (ascii ''topic'') (JStr (ascii ''Unknown'')))
              (dict_get kvs (ascii ''data'') (JDict []))
              (dict_get kvs (ascii ''@timestamp'') (JStr (ascii ''Unknown'')))
              (tr @ [Loads s])
          else (Inr (), tr @ [Loads s]))"
  by (simp add: handle_event_def bind_def loads_def lift_def return_def split: sum.splits)

lemma handle_event_shape:
  "\<exists>r acts. handle_event rt s tr = (r, tr @ Loads s # acts) \<and> list_all is_Print acts"
proof (cases "json_loads rt s")
  case (Inl e)
  then show ?thesis by (simp add: handle_event_error)
next
  case (Inr v)
  have rest: "only_does is_Print
     (bind (lift (py_get v (ascii ''topic'') (JStr (ascii ''Unknown'')))) (\<lambda>topic.
      bind (lift (py_get v (ascii ''data'') (JDict []))) (\<lambda>data.
      bind (lift (py_get v (ascii ''@timestamp'') (JStr (ascii ''Unknown'')))) (\<lambda>timestamp.
      bind (lift (is_detection topic)) (\<lambda>hit.
        if hit then detection_block rt topic data timestamp else return ())))))"
    by (intro only_does_bind only_does_lift) (simp add: only_does_detection_block only_does_return)
  from only_doesD[OF rest, of "tr @ [Loads s]"] obtain r acts
    where "bind (lift (py_get v (ascii ''topic'') (JStr (ascii ''Unknown'')))) (\<lambda>topic.
      bind (lift (py_get v (ascii ''data'') (JDict []))) (\<lambda>data.
      bind (lift (py_get v (ascii ''@timestamp'') (JStr (ascii ''Unknown'')))) (\<lambda>timestamp.
      bind (lift (is_detection topic)) (\<lambda>hit.
        if hit then detection_block rt topic data timestamp else return ())))) (tr @ [Loads s]) =
       (r, (tr @ [Loads s]) @ acts)" and "list_all is_Print acts"
    by blast
  with Inr show ?thesis
    by (simp add: handle_event_def bind_def[of "loads rt s"] loads_def)
qed

subsection \<open>One line\<close>

lemma process_line_empty:
  "process_line rt (Str []) tr = (Inr (), tr)"
  "process_line rt (Bytes []) tr = (Inr (), tr)"
  by (simp_all add: process_line.simps return_def)

lemma process_line_refused:
  "line \<noteq> [] \<Longrightarrow> stdout rt tr ([0x1F4E8] @ ascii '' '' @ line) = Some e \<Longrightarrow>
   process_line rt (Str line) tr = (Inl e, tr)"
  by (simp add: process_line.simps bind_def print_def)

lemma process_line_other:
  "line \<noteq> [] \<Longrightarrow> \<not> prefix (ascii ''data:'') line \<Longrightarrow>
   stdout rt tr ([0x1F4E8] @ ascii '' '' @ line) = None \<Longrightarrow>
   process_line rt (Str line) tr = (Inr (), tr @ [Print ([0x1F4E8] @ ascii '' '' @ line)])"
  by (simp add: process_line.simps return_def bind_def print_def)

lemma prefix_nonempty: "prefix (ascii ''data:'') line \<Longrightarrow> line \<noteq> []"
  by (auto simp add: ascii_def)

lemma process_line_blank:
  "prefix (ascii ''data:'') line \<Longrightarrow> strip (drop 5 line) = [] \<Longrightarrow>
   stdout rt tr ([0x1F4E8] @ ascii '' '' @ line) = None \<Longrightarrow>
   process_line rt (Str line) tr = (Inr (), tr @ [Print ([0x1F4E8] @ ascii '' '' @ line)])"
  by (simp add: process_line.simps return_def bind_def print_def try_json_def prefix_nonempty)

lemma process_line_data:
  "prefix (ascii ''data:'') line \<Longrightarrow> strip (drop 5 line) \<noteq> [] \<Longrightarrow>
   stdout rt tr ([0x1F4E8] @ ascii '' '' @ line) = None \<Longrightarrow>
   process_line rt (Str line) tr =
     (case handle_event rt (strip (drop 5 line)) (tr @ [Print ([0x1F4E8] @ ascii '' '' @ line)]) of
        (Inl e, tr') \<Rightarrow> if is_JSONDecodeError e then (Inr (), tr') else (Inl e, tr')
      | (Inr u, tr') \<Rightarrow> (Inr u, tr'))"
  by (simp add: process_line.simps return_def bind_def print_def try_json_def prefix_nonempty)

lemma process_line_bytes:
  "line \<noteq> [] \<Longrightarrow> stdout rt tr ([0x1F4E8] @ ascii '' '' @ bytes_repr line) = None \<Longrightarrow>
   process_line rt (Bytes line) tr =
     (Inl (TypeError (ascii ''startswith first arg must be bytes or a tuple of bytes, not str'')),
      tr @ [Print ([0x1F4E8] @ ascii '' '' @ bytes_repr line)])"
  by (simp add: process_line.simps bind_def print_def lift_def)

lemma process_line_bytes_refused:
  "line \<noteq> [] \<Longrightarrow> stdout rt tr ([0x1F4E8] @ ascii '' '' @ bytes_repr line) = Some e \<Longrightarrow>
   process_line rt (Bytes line) tr = (Inl e, tr)"
  by (simp add: process_line.simps bind_def print_def)

lemma local_action_Print: "list_all is_Print acts \<Longrightarrow> list_all local_action acts"
  by (induction acts) (auto simp add: is_Print_local)

lemma process_line_shape:
  assumes "line \<noteq> []" and "stdout rt tr ([0x1F4E8] @ ascii '' '' @ line) = None"
  shows "\<exists>r acts. process_line rt (Str line) tr = (r, tr @ Print ([0x1F4E8] @ ascii '' '' @ line) # acts) \<and>
            list_all local_action acts"
proof (cases "prefix (ascii ''data:'') line")
  case False
  with assms show ?thesis by (simp add: process_line_other)
next
  case pre: True
  show ?thesis
  proof (cases "strip (drop 5 line) = []")
    case True
    with pre assms show ?thesis by (simp add: process_line_blank)
  next
    case False
    let ?tr1 = "tr @ [Print ([0x1F4E8] @ ascii '' '' @ line)]"
    obtain r acts where h: "handle_event rt (strip (drop 5 line)) ?tr1 = (r, ?tr1 @ Loads (strip (drop 5 line)) # acts)"
      and p: "list_all is_Print acts"
      using handle_event_shape by blast
    have l: "list_all local_action acts"
      using p by (rule local_action_Print)
    show ?thesis
      using pre False h l assms by (cases r) (simp_all add: process_line_data)
  qed
qed

lemma process_line_local:
  "\<exists>r acts. process_line rt line tr = (r, tr @ acts) \<and> list_all local_action acts"
proof (cases line)
  case (Str s)
  show ?thesis
  proof (cases "s = []")
    case True
    with Str show ?thesis by (simp add: process_line_empty)
  next
    case ne: False
    show ?thesis
    proof (cases "stdout rt tr ([0x1F4E8] @ ascii '' '' @ s)")
      case (Some e)
      with Str ne show ?thesis by (simp add: process_line_refused)
    next
      case None
      from process_line_shape[OF ne None] obtain r acts
        where "process_line rt (Str s) tr = (r, tr @ Print ([0x1F4E8] @ ascii '' '' @ s) # acts)"
          "list_all local_action acts"
        by blast
      then have "process_line rt (Str s) tr = (r, tr @ (Print ([0x1F4E8] @ ascii '' '' @ s) # acts)) \<and>
          list_all local_action (Print ([0x1F4E8] @ ascii '' '' @ s) # acts)"
        by simp
      with Str show ?thesis by blast
    qed
  qed
next
  case (Bytes b)
  show ?thesis
  proof (cases "b = []")
    case True
    with Bytes show ?thesis by (simp add: process_line_empty)
  next
    case ne: False
    show ?thesis
    proof (cases "stdout rt tr ([0x1F4E8] @ ascii '' '' @ bytes_repr b)")
      case (Some e)
      with Bytes ne show ?thesis by (simp add: process_line_bytes_refused)
    next
      case None
      have "list_all local_action [Print ([0x1F4E8] @ ascii '' '' @ bytes_repr b)]" by simp
      with Bytes ne None show ?thesis
        by (simp add: process_line_bytes)
    qed
  qed
qed

subsection \<open>The whole loop\<close>

lemma for_lines_local:
  assumes run: "for_lines rt ls tr = Some y"
  shows "\<exists>acts. snd y = tr @ acts \<and> list_all local_action acts"
proof (rule for_lines.raw_induct
    [where P = "\<lambda>rt ls tr y. \<exists>acts. snd y = tr @ acts \<and> list_all local_action acts", OF _ run])
  fix loop rt ls tr y
  assume IH: "\<And>rt ls tr y. loop rt ls tr = Some y \<Longrightarrow>
                \<exists>acts. snd y = tr @ acts \<and> list_all local_action acts"
    and step: "(case ls of
                  Exhausted \<Rightarrow> Some (Inr (), tr)
                | Yield line rest \<Rightarrow>
                    (case process_line rt line tr of
                       (Inl e, tr') \<Rightarrow> Some (Inl e, tr')
                     | (Inr u, tr') \<Rightarrow> loop rt rest tr')
                | Throw e \<Rightarrow> Some (Inl e, tr)) = Some y"
  show "\<exists>acts. snd y = tr @ acts \<and> list_all local_action acts"
  proof (cases ls)
    case Exhausted
    with step show ?thesis by auto
  next
    case (Throw e)
    with step show ?thesis by auto
  next
    case (Yield line rest)
    obtain r acts where pl: "process_line rt line tr = (r, tr @ acts)" and la: "list_all local_action acts"
      using process_line_local by blast
    show ?thesis
    proof (cases r)
      case (Inl e)
      with step Yield pl la show ?thesis by auto
    next
      case (Inr u)
      with step Yield pl have "loop rt rest (tr @ acts) = Some y" by simp
      from IH[OF this] obtain acts' where "snd y = (tr @ acts) @ acts'" "list_all local_action acts'"
        by blast
      with la show ?thesis by auto
    qed
  qed
qed

lemma for_lines_ends:
  "ends ls \<Longrightarrow> \<exists>y. for_lines rt ls tr = Some y"
proof (induction ls arbitrary: tr rule: ends.induct)
  case ends_Exhausted
  show ?case by (simp add: for_lines_Exhausted)
next
  case (ends_Throw e)
  show ?case by (simp add: for_lines_Throw)
next
  case (ends_Yield rest line)
  show ?case
  proof (cases "process_line rt line tr")
    case (Pair r tr')
    then show ?thesis using ends_Yield.IH[of tr']
      by (cases r) (simp_all add: for_lines_Yield)
  qed
qed

text \<open>A body that never ends and never raises keeps the loop from returning.\<close>

lemma for_lines_forever: "for_lines rt (forever (Str [])) tr = None"
proof (cases "for_lines rt (forever (Str [])) tr")
  case None
  then show ?thesis .
next
  case (Some y)
  have "forever (Str []) \<noteq> forever (Str [])"
  proof (rule for_lines.raw_induct [where P = "\<lambda>rt ls tr y. ls \<noteq> forever (Str [])", OF _ Some])
    fix loop rt ls tr y
    assume IH: "\<And>rt ls tr y. loop rt ls tr = Some y \<Longrightarrow> ls \<noteq> forever (Str [])"
      and step: "(case ls of
                  Exhausted \<Rightarrow> Some (Inr (), tr)
                | Yield line rest \<Rightarrow>
                    (case process_line rt line tr of
                       (Inl e, tr') \<Rightarrow> Some (Inl e, tr')
                     | (Inr u, tr') \<Rightarrow> loop rt rest tr')
                | Throw e \<Rightarrow> Some (Inl e, tr)) = Some y"
    show "ls \<noteq> forever (Str [])"
    proof
      assume ls: "ls = forever (Str [])"
      have "ls = Yield (Str []) (forever (Str []))"
        by (subst ls, subst forever.ctr) simp
      with step have "loop rt (forever (Str [])) tr = Some y"
        by (simp add: process_line_empty)
      from IH[OF this] show False by simp
    qed
  qed
  then show ?thesis by simp
qed

lemma decoded_append: "decoded (xs @ ys) = decoded xs @ decoded ys"
  by (induction xs rule: decoded.induct) simp_all

lemma decoded_prints: "list_all is_Print acts \<Longrightarrow> decoded acts = []"
  by (induction acts rule: decoded.induct) simp_all

lemma demo_quiet: "quiet (demo b)"
  by (simp add: quiet_def demo_def)

lemma demo_stdout: "stdout (demo b) tr s = None"
  by (simp add: demo_def)

lemma demo_get: "requests_get (demo b) req = Inr \<lparr> http_error = None, body = b \<rparr>"
  by (simp add: demo_def)

lemma demo_update:
  "requests_get (demo b\<lparr>stdout := out\<rparr>) req = Inr \<lparr> http_error = None, body = b \<rparr>"
  "json_loads (demo b\<lparr>stdout := out\<rparr>) = demo_loads"
  "stdout (demo b\<lparr>stdout := out\<rparr>) = out"
  by (simp_all add: demo_def)

subsection \<open>Empty lines\<close>

text \<open>
  Claim C9. A line that is empty after decoding produces nothing: the loop body leaves
  the trace as it was (no echo, no call of the decoder, no detection block) and raises
  nothing, and the loop goes on with the rest of the body from the same trace. The same
  holds for an empty bytes line.
\<close>

theorem empty_line_is_skipped:
  "process_line rt (Str []) tr = (Inr (), tr) \<and>
   for_lines rt (Yield (Str []) rest) tr = for_lines rt rest tr \<and>
   process_line rt (Bytes []) tr = (Inr (), tr) \<and>
   for_lines rt (Yield (Bytes []) rest) tr = for_lines rt rest tr"
  by (simp add: for_lines_Yield process_line_empty)

subsection \<open>The echo\<close>

text \<open>
  Claim C7, as the code has it. For a text line that is not empty, the loop body begins
  with the \<^verbatim>\<open>print\<close> of line 31: the marker U+1F4E8, a space, and then the line itself,
  unchanged. When that print succeeds it is the first action for the line, and whatever
  else the body does for it (\<open>acts\<close>) comes after it in the trace. When it raises, nothing
  is done for the line and the exception leaves the loop body.
\<close>

theorem line_is_echoed_first:
  "line \<noteq> [] \<Longrightarrow>
   (stdout rt tr ([0x1F4E8] @ ascii '' '' @ line) = None \<longrightarrow>
      (\<exists>r acts. process_line rt (Str line) tr = (r, tr @ Print ([0x1F4E8] @ ascii '' '' @ line) # acts))) \<and>
   (\<forall>e. stdout rt tr ([0x1F4E8] @ ascii '' '' @ line) = Some e \<longrightarrow>
      process_line rt (Str line) tr = (Inl e, tr))"
  using process_line_shape[of line rt tr] process_line_refused[of line rt tr] by blast

theorem line_is_echoed_first_witness:
  "ascii ''hello'' \<noteq> [] \<and>
   (\<exists>r acts. process_line (demo Exhausted) (Str (ascii ''hello'')) [Print (ascii ''before'')] =
      (r, [Print (ascii ''before'')] @ Print ([0x1F4E8] @ ascii '' '' @ ascii ''hello'') # acts))"
proof -
  have ne: "ascii ''hello'' \<noteq> []" by (simp add: ascii_def)
  from line_is_echoed_first[OF ne, of "demo Exhausted" "[Print (ascii ''before'')]"] ne
  show ?thesis by (simp add: demo_stdout)
qed

lemma bytes_repr_hello: "bytes_repr ''hello'' = ascii ''b'' @ quoted (ascii ''hello'')"
  by (simp add: bytes_repr_def escape_byte_def quoted_def ascii_def)

lemma encode_marker:
  "encode_error (ascii ''ascii'') (\<lambda>c. 128 \<le> c) (ascii ''ordinal not in range(128)'')
       ([0x1F4E8] @ ascii '' '' @ ascii ''hello'') =
     Some (UnicodeEncodeError
       (quoted (ascii ''ascii'') @ ascii '' codec can'' @ [39] @ ascii ''t encode character '' @
        quoted ([92] @ ascii ''U0001f4e8'') @ ascii '' in position 0: ordinal not in range(128)''))"
  by (simp add: encode_error_def escaped_def hex_numeral hex_digit_def quoted_def ascii_def digits_small)

lemma ascii_stdout_marker:
  "ascii_stdout tr ([0x1F4E8] @ ascii '' '' @ ascii ''hello'') =
     Some (UnicodeEncodeError
       (quoted (ascii ''ascii'') @ ascii '' codec can'' @ [39] @ ascii ''t encode character '' @
        quoted ([92] @ ascii ''U0001f4e8'') @ ascii '' in position 0: ordinal not in range(128)''))"
  unfolding ascii_stdout_def by (rule encode_marker)

text \<open>
  Claim C7, as the specification states it, fails in two ways. A response that names no
  charset yields bytes lines: for the line \<^verbatim>\<open>b'hello'\<close> the echo shows the repr of the bytes
  object and not the line, and line 34 then raises. And when the standard output cannot
  encode the marker, nothing at all is printed for the line.
\<close>

theorem line_is_echoed_first_counterexample:
  "process_line (demo Exhausted) (Bytes ''hello'') [] =
     (Inl (TypeError (ascii ''startswith first arg must be bytes or a tuple of bytes, not str'')),
      [Print ([0x1F4E8] @ ascii '' b'' @ quoted (ascii ''hello''))]) \<and>
   [0x1F4E8] @ ascii '' b'' @ quoted (ascii ''hello'') \<noteq> [0x1F4E8] @ ascii '' '' @ ascii ''hello'' \<and>
   process_line (demo Exhausted \<lparr>stdout := ascii_stdout\<rparr>) (Str (ascii ''hello'')) [] =
     (Inl (UnicodeEncodeError
       (quoted (ascii ''ascii'') @ ascii '' codec can'' @ [39] @ ascii ''t encode character '' @
        quoted ([92] @ ascii ''U0001f4e8'') @ ascii '' in position 0: ordinal not in range(128)'')),
      [])"
proof -
  have a: "process_line (demo Exhausted) (Bytes ''hello'') [] =
     (Inl (TypeError (ascii ''startswith first arg must be bytes or a tuple of bytes, not str'')),
      [Print ([0x1F4E8] @ ascii '' b'' @ quoted (ascii ''hello''))])"
    by (simp add: process_line_bytes demo_stdout bytes_repr_hello) (simp add: ascii_def)
  have b: "[0x1F4E8] @ ascii '' b'' @ quoted (ascii ''hello'') \<noteq> [0x1F4E8] @ ascii '' '' @ ascii ''hello''"
    by (simp add: ascii_def quoted_def)
  have ne: "ascii ''hello'' \<noteq> []" by (simp add: ascii_def)
  have c: "process_line (demo Exhausted \<lparr>stdout := ascii_stdout\<rparr>) (Str (ascii ''hello'')) [] =
     (Inl (UnicodeEncodeError
       (quoted (ascii ''ascii'') @ ascii '' codec can'' @ [39] @ ascii ''t encode character '' @
        quoted ([92] @ ascii ''U0001f4e8'') @ ascii '' in position 0: ordinal not in range(128)'')),
      [])"
    by (rule process_line_refused[OF ne]) (simp only: demo_update ascii_stdout_marker)
  from a b c show ?thesis by blast
qed

subsection \<open>Failures of the decoder\<close>

text \<open>
  Claim C1, as the code has it. Take a text line that starts with \<^verbatim>\<open>data:\<close>, whose rest is
  not empty once stripped, and whose echo has been printed. When \<^verbatim>\<open>json.loads\<close> raises
  \<^verbatim>\<open>JSONDecodeError\<close> on that rest, the loop body ends normally, having done two things
  only: the echo and the call of the decoder. It prints no detection block and no message
  about the failure, and the loop goes on with the lines that follow. Any other exception
  of the decoder is not taken by the inner handler: it leaves the loop body.
\<close>

theorem malformed_json_is_skipped:
  assumes "prefix (ascii ''data:'') line"
    and "strip (drop 5 line) \<noteq> []"
    and "stdout rt tr ([0x1F4E8] @ ascii '' '' @ line) = None"
  shows "(\<forall>m. json_loads rt (strip (drop 5 line)) = Inl (JSONDecodeError m) \<longrightarrow>
           process_line rt (Str line) tr =
             (Inr (), tr @ [Print ([0x1F4E8] @ ascii '' '' @ line), Loads (strip (drop 5 line))]) \<and>
           for_lines rt (Yield (Str line) rest) tr =
             for_lines rt rest (tr @ [Print ([0x1F4E8] @ ascii '' '' @ line), Loads (strip (drop 5 line))])) \<and>
         (\<forall>e. json_loads rt (strip (drop 5 line)) = Inl e \<and> \<not> is_JSONDecodeError e \<longrightarrow>
           process_line rt (Str line) tr =
             (Inl e, tr @ [Print ([0x1F4E8] @ ascii '' '' @ line), Loads (strip (drop 5 line))]) \<and>
           for_lines rt (Yield (Str line) rest) tr =
             Some (Inl e, tr @ [Print ([0x1F4E8] @ ascii '' '' @ line), Loads (strip (drop 5 line))]))"
  using assms by (simp add: for_lines_Yield process_line_data handle_event_error)

lemma strip_not_json: "strip (drop 5 (ascii ''data: not json'')) = ascii ''not json''"
  by (simp add: strip_def isspace_def ascii_def)

lemma hd_deep: "deep_payload = 91 # replicate 1099 91"
  by (simp add: deep_payload_def replicate_Suc[symmetric] del: replicate_Suc replicate.simps)

lemma demo_loads_not_json:
  "demo_loads (ascii ''not json'') = Inl (JSONDecodeError (ascii ''Expecting value: line 1 column 1 (char 0)''))"
  by (simp add: demo_loads_def example_payload_def mixed_payload_def odd_payload_def
      surrogate_payload_def hd_deep ascii_def)

lemma next_line: "ascii ''next'' \<noteq> []" "\<not> prefix (ascii ''data:'') (ascii ''next'')"
  by (simp_all add: ascii_def)

theorem malformed_json_is_skipped_witness:
  "for_lines (demo Exhausted) (Yield (Str (ascii ''data: not json'')) (Yield (Str (ascii ''next'')) Exhausted)) [] =
     Some (Inr (), [Print ([0x1F4E8] @ ascii '' '' @ ascii ''data: not json''), Loads (ascii ''not json''),
                    Print ([0x1F4E8] @ ascii '' '' @ ascii ''next'')])"
proof -
  have p: "prefix (ascii ''data:'') (ascii ''data: not json'')"
    by (simp add: ascii_def)
  have s: "strip (drop 5 (ascii ''data: not json'')) \<noteq> []"
    by (simp add: strip_not_json) (simp add: ascii_def)
  have l: "json_loads (demo Exhausted) (strip (drop 5 (ascii ''data: not json''))) =
             Inl (JSONDecodeError (ascii ''Expecting value: line 1 column 1 (char 0)''))"
    by (simp add: strip_not_json demo_def demo_loads_not_json)
  from malformed_json_is_skipped[OF p s demo_stdout, where rest = "Yield (Str (ascii ''next'')) Exhausted"
      and tr = "[]"] l
  show ?thesis
    by (simp add: strip_not_json for_lines_Yield for_lines_Exhausted
        process_line_other[OF next_line demo_stdout])
qed

lemma strip_plain:
  assumes "\<forall>c \<in> set s. \<not> isspace c"
  shows "strip s = s"
proof -
  have a: "dropWhile isspace t = t" if "\<forall>c \<in> set t. \<not> isspace c" for t
    using that by (cases t) simp_all
  have "dropWhile isspace (rev (dropWhile isspace s)) = rev s"
    using a[of s] a[of "rev s"] assms by simp
  then show ?thesis by (simp add: strip_def)
qed

lemma strip_deep: "strip (drop 5 (ascii ''data: '' @ deep_payload)) = deep_payload"
proof -
  have d: "drop 5 (ascii ''data: '' @ deep_payload) = 32 # deep_payload"
    by (simp add: ascii_def)
  have n: "\<forall>c \<in> set deep_payload. \<not> isspace c"
    by (simp add: deep_payload_def isspace_def)
  have "strip (32 # deep_payload) = rev (dropWhile isspace (rev (dropWhile isspace deep_payload)))"
    by (simp add: strip_def isspace_def)
  also have "\<dots> = strip deep_payload" by (simp add: strip_def)
  also have "\<dots> = deep_payload" by (rule strip_plain[OF n])
  finally show ?thesis by (simp only: d)
qed

lemma demo_loads_deep:
  "demo_loads deep_payload = Inl (RecursionError (ascii ''maximum recursion depth exceeded''))"
proof -
  have "deep_payload \<noteq> example_payload" "deep_payload \<noteq> mixed_payload" "deep_payload \<noteq> ascii ''42''"
    "deep_payload \<noteq> odd_payload" "deep_payload \<noteq> surrogate_payload"
    by (simp_all add: hd_deep example_payload_def mixed_payload_def odd_payload_def
        surrogate_payload_def ascii_def)
  then show ?thesis by (simp add: demo_loads_def)
qed

subsection \<open>The function as a whole\<close>

lemma banner_eq:
  "accepts rt tr (banner_texts ip) \<Longrightarrow> banner rt ip tr = (Inr (), tr @ banner_lines ip)"
  by (simp add: banner_def banner_lines_def banner_texts_def bind_def print_def)

lemma only_does_banner: "only_does is_Print (banner rt ip)"
  unfolding banner_def by (intro only_does_bind only_does_print)

lemma banner_done:
  assumes "banner rt ip tr = (Inr x, tr0)"
  shows "accepts rt tr (banner_texts ip) \<and> tr0 = tr @ banner_lines ip"
proof -
  have "accepts rt tr (banner_texts ip)"
    using assms
    by (auto simp add: banner_def banner_texts_def bind_def print_def split: option.splits)
  with assms show ?thesis by (simp add: banner_eq)
qed

lemma subscribe_unfold:
  "accepts rt tr (banner_texts ip) \<Longrightarrow>
   subscribe_to_events rt ip u p tr = map_option (handlers rt) (try_body rt ip u p (tr @ banner_lines ip))"
  by (simp add: subscribe_to_events_def banner_eq)

lemma subscribe_banner_fails:
  "banner rt ip tr = (Inl e, tr0) \<Longrightarrow> subscribe_to_events rt ip u p tr = Some (Inl e, tr0)"
  by (simp add: subscribe_to_events_def)

lemma handlers_Inr: "handlers rt (Inr x, tr) = (Inr x, tr)"
  by (simp add: handlers_def)

lemma handlers_Inl:
  "handlers rt (Inl e, tr) =
     print rt (if e = KeyboardInterrupt then [10, 0x1F6D1] @ ascii '' Stopped by user''
               else [0x274C] @ ascii '' Error: '' @ str_exn e) tr"
  by (cases e) (simp_all add: handlers_def)

lemma handlers_shape:
  "\<exists>r acts. handlers rt (r0, tr) = (r, tr @ acts) \<and> list_all is_Print acts"
proof (cases r0)
  case (Inr x)
  then show ?thesis by (simp add: handlers_Inr)
next
  case (Inl e)
  then show ?thesis
    using only_doesD[OF only_does_print] by (simp add: handlers_Inl)
qed

lemma try_body_raise:
  "requests_get rt (subscription ip u p) = Inl e \<Longrightarrow>
   try_body rt ip u p tr = Some (Inl e, tr @ [Get (subscription ip u p)])"
  by (simp add: try_body_def)

lemma try_body_status:
  "requests_get rt (subscription ip u p) = Inr resp \<Longrightarrow> http_error resp = Some e \<Longrightarrow>
   try_body rt ip u p tr = Some (Inl e, tr @ [Get (subscription ip u p)])"
  by (simp add: try_body_def)

lemma try_body_loop:
  "requests_get rt (subscription ip u p) = Inr resp \<Longrightarrow> http_error resp = None \<Longrightarrow>
   try_body rt ip u p tr = for_lines rt (body resp) (tr @ [Get (subscription ip u p)])"
  by (simp add: try_body_def)

lemma try_body_shape:
  assumes "try_body rt ip u p tr = Some (r, tr')"
  shows "\<exists>acts. tr' = tr @ Get (subscription ip u p) # acts \<and> list_all local_action acts"
proof (cases "requests_get rt (subscription ip u p)")
  case (Inl e)
  with assms show ?thesis by (auto simp add: try_body_raise)
next
  case (Inr resp)
  show ?thesis
  proof (cases "http_error resp")
    case (Some e)
    with Inr assms show ?thesis by (auto simp add: try_body_status)
  next
    case None
    with Inr assms have "for_lines rt (body resp) (tr @ [Get (subscription ip u p)]) = Some (r, tr')"
      by (simp add: try_body_loop)
    from for_lines_local[OF this] show ?thesis by simp
  qed
qed

lemma try_body_ends:
  assumes "\<forall>resp. requests_get rt (subscription ip u p) = Inr resp \<and> http_error resp = None \<longrightarrow>
             ends (body resp)"
  shows "\<exists>y. try_body rt ip u p tr = Some y"
proof (cases "requests_get rt (subscription ip u p)")
  case (Inl e)
  then show ?thesis by (simp add: try_body_raise)
next
  case (Inr resp)
  show ?thesis
  proof (cases "http_error resp")
    case (Some e)
    with Inr show ?thesis by (simp add: try_body_status)
  next
    case None
    with Inr assms have "ends (body resp)" by blast
    from for_lines_ends[OF this] Inr None show ?thesis by (simp add: try_body_loop)
  qed
qed

lemma subscribe_ends:
  assumes "\<forall>resp. requests_get rt (subscription ip u p) = Inr resp \<and> http_error resp = None \<longrightarrow>
             ends (body resp)"
  shows "\<exists>y. subscribe_to_events rt ip u p tr = Some y"
proof (cases "banner rt ip tr")
  case (Pair r tr0)
  show ?thesis
  proof (cases r)
    case (Inl e)
    with Pair show ?thesis by (simp add: subscribe_banner_fails)
  next
    case (Inr x)
    from try_body_ends[OF assms, of tr0] obtain y where "try_body rt ip u p tr0 = Some y" by blast
    with Pair Inr show ?thesis by (simp add: subscribe_to_events_def)
  qed
qed

lemma subscribe_shape:
  assumes "subscribe_to_events rt ip u p tr = Some (r, tr')"
    and "accepts rt tr (banner_texts ip)"
  shows "\<exists>acts. tr' = tr @ banner_lines ip @ Get (subscription ip u p) # acts \<and>
                list_all local_action acts"
proof -
  from assms obtain y where tb: "try_body rt ip u p (tr @ banner_lines ip) = Some y"
    and h: "handlers rt y = (r, tr')"
    by (auto simp add: subscribe_unfold)
  obtain r1 tr1 where y: "y = (r1, tr1)" by (cases y)
  from try_body_shape[OF tb[unfolded y]] obtain acts
    where tr1: "tr1 = (tr @ banner_lines ip) @ Get (subscription ip u p) # acts"
      and la: "list_all local_action acts"
    by blast
  from handlers_shape[of rt r1 tr1] h y obtain acts'
    where tr': "tr' = tr1 @ acts'" and lp: "list_all is_Print acts'"
    by auto
  have "tr' = tr @ banner_lines ip @ Get (subscription ip u p) # (acts @ acts')"
    using tr1 tr' by simp
  moreover have "list_all local_action (acts @ acts')"
    using la local_action_Print[OF lp] by simp
  ultimately show ?thesis by blast
qed

lemma local_action_not_Close: "list_all local_action acts \<Longrightarrow> Close \<notin> set acts"
  by (induction acts) auto

lemma banner_lines_not_Close: "Close \<notin> set (banner_lines ip)"
  by (simp add: banner_lines_def banner_texts_def)

lemma subscribe_no_Close:
  assumes "subscribe_to_events rt ip u p tr = Some (r, tr')"
  shows "\<exists>acts. tr' = tr @ acts \<and> Close \<notin> set acts"
proof (cases "banner rt ip tr")
  case (Pair r0 tr0)
  from only_doesD[OF only_does_banner, of rt ip tr] Pair obtain bs
    where tr0: "tr0 = tr @ bs" and pb: "list_all is_Print bs" by auto
  have nb: "Close \<notin> set bs"
    using local_action_not_Close[OF local_action_Print[OF pb]] .
  show ?thesis
  proof (cases r0)
    case (Inl e)
    with Pair assms tr0 nb show ?thesis by (auto simp add: subscribe_banner_fails)
  next
    case (Inr x)
    from banner_done[OF Pair[unfolded Inr]] have acc: "accepts rt tr (banner_texts ip)" by blast
    from subscribe_shape[OF assms acc] obtain acts
      where t: "tr' = tr @ banner_lines ip @ Get (subscription ip u p) # acts"
        and l: "list_all local_action acts"
      by blast
    have "Close \<notin> set (banner_lines ip @ Get (subscription ip u p) # acts)"
      using local_action_not_Close[OF l] by (simp add: banner_lines_not_Close)
    with t show ?thesis by blast
  qed
qed

text \<open>
  Claim C4, as the code has it. An exception leaves \<^verbatim>\<open>subscribe_to_events\<close> only when a
  \<^verbatim>\<open>print\<close> raises it outside the \<^verbatim>\<open>try\<close> block: a print of the banner (lines 19 to 21) or
  the print of a handler (lines 58 and 60). Every exception raised inside the \<^verbatim>\<open>try\<close>
  block is taken: when the banner has been printed and the body of the \<^verbatim>\<open>try\<close> ends,
  normally or with an exception, the function returns normally, provided the handler's
  print succeeds; after a keyboard interrupt it has printed the stop message, after any
  other exception \<open>e\<close> the error message with \<^verbatim>\<open>str(e)\<close>. And the function does return
  whenever the body of the response ends (it is exhausted or raises after finitely many
  lines), as well as when the request itself fails.
\<close>

theorem exceptions_leave_only_through_print:
  "(\<forall>e tr'. subscribe_to_events rt ip u p tr = Some (Inl e, tr') \<longrightarrow>
      banner rt ip tr = (Inl e, tr') \<or>
      (\<exists>e0. try_body rt ip u p (tr @ banner_lines ip) = Some (Inl e0, tr') \<and>
            stdout rt tr'
              (if e0 = KeyboardInterrupt then [10, 0x1F6D1] @ ascii '' Stopped by user''
               else [0x274C] @ ascii '' Error: '' @ str_exn e0) = Some e)) \<and>
   (accepts rt tr (banner_texts ip) \<longrightarrow>
      (\<forall>r tr1. try_body rt ip u p (tr @ banner_lines ip) = Some (r, tr1) \<and>
         (\<forall>e0. r = Inl e0 \<longrightarrow>
            stdout rt tr1
              (if e0 = KeyboardInterrupt then [10, 0x1F6D1] @ ascii '' Stopped by user''
               else [0x274C] @ ascii '' Error: '' @ str_exn e0) = None) \<longrightarrow>
         subscribe_to_events rt ip u p tr =
           Some (Inr (), tr1 @
             (case r of
                Inr x \<Rightarrow> []
              | Inl e0 \<Rightarrow>
                  if e0 = KeyboardInterrupt then [Print ([10, 0x1F6D1] @ ascii '' Stopped by user'')]
                  else [Print ([0x274C] @ ascii '' Error: '' @ str_exn e0)])))) \<and>
   ((\<forall>resp. requests_get rt (subscription ip u p) = Inr resp \<and> http_error resp = None \<longrightarrow>
       ends (body resp)) \<longrightarrow>
    (\<exists>y. subscribe_to_events rt ip u p tr = Some y))"
proof (intro conjI allI impI)
  fix e tr'
  assume run: "subscribe_to_events rt ip u p tr = Some (Inl e, tr')"
  show "banner rt ip tr = (Inl e, tr') \<or>
      (\<exists>e0. try_body rt ip u p (tr @ banner_lines ip) = Some (Inl e0, tr') \<and>
            stdout rt tr'
              (if e0 = KeyboardInterrupt then [10, 0x1F6D1] @ ascii '' Stopped by user''
               else [0x274C] @ ascii '' Error: '' @ str_exn e0) = Some e)"
  proof (cases "banner rt ip tr")
    case (Pair r0 tr0)
    show ?thesis
    proof (cases r0)
      case (Inl e')
      with Pair run show ?thesis by (simp add: subscribe_banner_fails)
    next
      case (Inr x)
      from banner_done[OF Pair[unfolded Inr]]
      have acc: "accepts rt tr (banner_texts ip)" by blast
      from run obtain y where tb: "try_body rt ip u p (tr @ banner_lines ip) = Some y"
        and h: "handlers rt y = (Inl e, tr')"
        by (auto simp add: subscribe_unfold[OF acc])
      obtain r1 tr1 where y: "y = (r1, tr1)" by (cases y)
      show ?thesis
      proof (cases r1)
        case (Inr x1)
        with h y show ?thesis by (simp add: handlers_Inr)
      next
        case (Inl e0)
        let ?msg = "if e0 = KeyboardInterrupt then [10, 0x1F6D1] @ ascii '' Stopped by user''
               else [0x274C] @ ascii '' Error: '' @ str_exn e0"
        from h y Inl have p: "print rt ?msg tr1 = (Inl e, tr')"
          by (simp add: handlers_Inl)
        then have "stdout rt tr1 ?msg = Some e \<and> tr' = tr1"
          by (cases "stdout rt tr1 ?msg") (simp_all add: print_def)
        with tb y Inl show ?thesis by auto
      qed
    qed
  qed
next
  fix r tr1
  assume acc: "accepts rt tr (banner_texts ip)"
    and h: "try_body rt ip u p (tr @ banner_lines ip) = Some (r, tr1) \<and>
         (\<forall>e0. r = Inl e0 \<longrightarrow>
            stdout rt tr1
              (if e0 = KeyboardInterrupt then [10, 0x1F6D1] @ ascii '' Stopped by user''
               else [0x274C] @ ascii '' Error: '' @ str_exn e0) = None)"
  show "subscribe_to_events rt ip u p tr =
           Some (Inr (), tr1 @
             (case r of
                Inr x \<Rightarrow> []
              | Inl e0 \<Rightarrow>
                  if e0 = KeyboardInterrupt then [Print ([10, 0x1F6D1] @ ascii '' Stopped by user'')]
                  else [Print ([0x274C] @ ascii '' Error: '' @ str_exn e0)]))"
  proof (cases r)
    case (Inr x)
    with h show ?thesis by (simp add: subscribe_unfold[OF acc] handlers_Inr)
  next
    case (Inl e0)
    with h show ?thesis
      by (cases "e0 = KeyboardInterrupt") (simp_all add: subscribe_unfold[OF acc] handlers_Inl print_def)
  qed
next
  assume "\<forall>resp. requests_get rt (subscription ip u p) = Inr resp \<and> http_error resp = None \<longrightarrow>
       ends (body resp)"
  then show "\<exists>y. subscribe_to_events rt ip u p tr = Some y"
    by (rule subscribe_ends)
qed

lemma hello_line: "ascii ''hello'' \<noteq> []" "\<not> prefix (ascii ''data:'') (ascii ''hello'')"
  by (simp_all add: ascii_def)

lemma demo_accepts: "accepts (demo b) tr ss"
  by (rule quiet_accepts[OF demo_quiet])

theorem exceptions_leave_only_through_print_witness:
  "ends (Yield (Str (ascii ''hello'')) (Throw KeyboardInterrupt)) \<and>
   accepts (demo (Yield (Str (ascii ''hello'')) (Throw KeyboardInterrupt))) [] (banner_texts (ascii ''10.0.0.7'')) \<and>
   subscribe_to_events (demo (Yield (Str (ascii ''hello'')) (Throw KeyboardInterrupt)))
       (ascii ''10.0.0.7'') (ascii ''root'') (ascii ''pass'') [] =
     Some (Inr (),
       banner_lines (ascii ''10.0.0.7'') @
       [Get (subscription (ascii ''10.0.0.7'') (ascii ''root'') (ascii ''pass'')),
        Print ([0x1F4E8] @ ascii '' '' @ ascii ''hello''),
        Print ([10, 0x1F6D1] @ ascii '' Stopped by user'')]) \<and>
   subscribe_to_events (demo (Throw (Exception (ascii ''Connection broken''))))
       (ascii ''10.0.0.7'') (ascii ''root'') (ascii ''pass'') [] =
     Some (Inr (),
       banner_lines (ascii ''10.0.0.7'') @
       [Get (subscription (ascii ''10.0.0.7'') (ascii ''root'') (ascii ''pass'')),
        Print ([0x274C] @ ascii '' Error: '' @ ascii ''Connection broken'')])"
proof -
  let ?ip = "ascii ''10.0.0.7''" and ?u = "ascii ''root''" and ?p = "ascii ''pass''"
  let ?b1 = "Yield (Str (ascii ''hello'')) (Throw KeyboardInterrupt)"
  let ?b2 = "Throw (Exception (ascii ''Connection broken''))"
  have e: "ends ?b1"
    by (intro ends.intros)
  have t1: "try_body (demo ?b1) ?ip ?u ?p ([] @ banner_lines ?ip) =
      Some (Inl KeyboardInterrupt, banner_lines ?ip @
        [Get (subscription ?ip ?u ?p), Print ([0x1F4E8] @ ascii '' '' @ ascii ''hello'')])"
    by (simp add: try_body_loop[OF demo_get] for_lines_Yield for_lines_Throw
        process_line_other[OF hello_line demo_stdout])
  have t2: "try_body (demo ?b2) ?ip ?u ?p ([] @ banner_lines ?ip) =
      Some (Inl (Exception (ascii ''Connection broken'')), banner_lines ?ip @ [Get (subscription ?ip ?u ?p)])"
    by (simp add: try_body_loop[OF demo_get] for_lines_Throw)
  from exceptions_leave_only_through_print[where rt = "demo ?b1" and ip = ?ip and u = ?u and p = ?p
      and tr = "[]"] t1
  have r1: "subscribe_to_events (demo ?b1) ?ip ?u ?p [] =
     Some (Inr (), banner_lines ?ip @
       [Get (subscription ?ip ?u ?p), Print ([0x1F4E8] @ ascii '' '' @ ascii ''hello''),
        Print ([10, 0x1F6D1] @ ascii '' Stopped by user'')])"
    by (simp add: demo_accepts demo_stdout)
  from exceptions_leave_only_through_print[where rt = "demo ?b2" and ip = ?ip and u = ?u and p = ?p
      and tr = "[]"] t2
  have r2: "subscribe_to_events (demo ?b2) ?ip ?u ?p [] =
     Some (Inr (), banner_lines ?ip @
       [Get (subscription ?ip ?u ?p), Print ([0x274C] @ ascii '' Error: '' @ ascii ''Connection broken'')])"
    by (simp add: demo_accepts demo_stdout)
  from e r1 r2 demo_accepts show ?thesis by blast
qed

lemma ascii_stdout_banner:
  "ascii_stdout tr ([0x1F517] @ ascii '' Subscribing to VideoAnalytics events on '' @ ascii ''10.0.0.7'') =
     Some (UnicodeEncodeError
       (quoted (ascii ''ascii'') @ ascii '' codec can'' @ [39] @ ascii ''t encode character '' @
        quoted ([92] @ ascii ''U0001f517'') @ ascii '' in position 0: ordinal not in range(128)''))"
  by (simp add: ascii_stdout_def encode_error_def escaped_def hex_numeral hex_digit_def quoted_def
      ascii_def digits_small)

text \<open>
  Claim C4, as the specification states it, fails when the standard output cannot encode
  the emoji of the banner (an ASCII terminal, or output redirected with an ASCII codec).
  The first \<^verbatim>\<open>print\<close>, at line 19, stands before the \<^verbatim>\<open>try\<close>: its \<^verbatim>\<open>UnicodeEncodeError\<close> leaves
  the function, with nothing printed and no request made.
\<close>

theorem no_exception_propagates_counterexample:
  "subscribe_to_events (demo Exhausted \<lparr>stdout := ascii_stdout\<rparr>)
       (ascii ''10.0.0.7'') (ascii ''root'') (ascii ''pass'') [] =
     Some (Inl (UnicodeEncodeError
       (quoted (ascii ''ascii'') @ ascii '' codec can'' @ [39] @ ascii ''t encode character '' @
        quoted ([92] @ ascii ''U0001f517'') @ ascii '' in position 0: ordinal not in range(128)'')),
       [])"
proof -
  have "banner (demo Exhausted \<lparr>stdout := ascii_stdout\<rparr>) (ascii ''10.0.0.7'') [] =
     (Inl (UnicodeEncodeError
       (quoted (ascii ''ascii'') @ ascii '' codec can'' @ [39] @ ascii ''t encode character '' @
        quoted ([92] @ ascii ''U0001f517'') @ ascii '' in position 0: ordinal not in range(128)'')),
      [])"
  proof -
    have s: "stdout (demo Exhausted \<lparr>stdout := ascii_stdout\<rparr>) []
        ([0x1F517] @ ascii '' Subscribing to VideoAnalytics events on '' @ ascii ''10.0.0.7'') =
      Some (UnicodeEncodeError
       (quoted (ascii ''ascii'') @ ascii '' codec can'' @ [39] @ ascii ''t encode character '' @
        quoted ([92] @ ascii ''U0001f517'') @ ascii '' in position 0: ordinal not in range(128)''))"
      by (simp only: demo_update ascii_stdout_banner)
    show ?thesis
      unfolding banner_def bind_def by (simp only: print_fail[OF s]) simp
  qed
  then show ?thesis by (rule subscribe_banner_fails)
qed

subsection \<open>Payloads that are not event objects\<close>

lemma strip_42: "strip (drop 5 (ascii ''data: 42'')) = ascii ''42''"
  by (simp add: strip_def isspace_def ascii_def)

lemma strip_odd: "strip (drop 5 (ascii ''data: '' @ odd_payload)) = odd_payload"
  by (simp add: strip_def isspace_def ascii_def odd_payload_def)

lemma data_prefix: "prefix (ascii ''data:'') (ascii ''data: '' @ s)"
  by (simp add: ascii_def)

lemma process_line_42:
  assumes "json_loads rt (ascii ''42'') = Inr (JInt 42)" and "quiet rt"
  shows "process_line rt (Str (ascii ''data: 42'')) tr =
     (Inl (AttributeError (quoted (ascii ''int'') @ ascii '' object has no attribute '' @ quoted (ascii ''get''))),
      tr @ [Print ([0x1F4E8] @ ascii '' '' @ ascii ''data: 42''), Loads (ascii ''42'')])"
proof -
  have p: "prefix (ascii ''data:'') (ascii ''data: 42'')"
    by (simp add: ascii_def)
  have s: "strip (drop 5 (ascii ''data: 42'')) \<noteq> []"
    by (simp only: strip_42) (simp add: ascii_def)
  have h: "handle_event rt (ascii ''42'') (tr @ [Print ([0x1F4E8] @ ascii '' '' @ ascii ''data: 42'')]) =
     (Inl (AttributeError (quoted (type_name (JInt 42)) @ ascii '' object has no attribute '' @ quoted (ascii ''get''))),
      (tr @ [Print ([0x1F4E8] @ ascii '' '' @ ascii ''data: 42'')]) @ [Loads (ascii ''42'')])"
    by (rule handle_event_not_dict[OF assms(1)]) simp
  show ?thesis
    by (simp only: process_line_data[OF p s quiet_stdout[OF assms(2)]] strip_42 h) simp
qed

lemma process_line_odd:
  assumes "json_loads rt odd_payload = Inr odd_event" and "quiet rt"
  shows "process_line rt (Str (ascii ''data: '' @ odd_payload)) tr =
     (Inl (AttributeError (quoted (ascii ''int'') @ ascii '' object has no attribute '' @ quoted (ascii ''get''))),
      tr @ [Print ([0x1F4E8] @ ascii '' data: '' @ odd_payload), Loads odd_payload,
            Print ([0x1F3AF] @ ascii '' OBJECT DETECTION EVENT!''),
            Print (ascii ''   '' @ [0x23F0] @ ascii '' Time: Unknown''),
            Print (ascii ''   '' @ [0x1F4C2] @ ascii '' Topic: VideoAnalytics/ObjectDetected'')])"
proof -
  let ?kvs = "[(ascii ''topic'', JStr (ascii ''VideoAnalytics/ObjectDetected'')), (ascii ''data'', JInt 5)]"
  have s: "strip (drop 5 (ascii ''data: '' @ odd_payload)) \<noteq> []"
    by (simp only: strip_odd) (simp add: odd_payload_def ascii_def)
  have l: "json_loads rt odd_payload = Inr (JDict ?kvs)"
    using assms by (simp add: odd_event_def)
  have t: "dict_get ?kvs (ascii ''topic'') (JStr (ascii ''Unknown'')) = JStr (ascii ''VideoAnalytics/ObjectDetected'')"
    by (simp add: dict_get_def)
  have d: "dict_get ?kvs (ascii ''data'') (JDict []) = JInt 5"
    by (simp add: dict_get_def ascii_def)
  have ts: "dict_get ?kvs (ascii ''@timestamp'') (JStr (ascii ''Unknown'')) = JStr (ascii ''Unknown'')"
    by (simp add: dict_get_def ascii_def)
  have m: "sublist (ascii ''VideoAnalytics'') (ascii ''VideoAnalytics/ObjectDetected'')"
          "sublist (ascii ''ObjectDetected'') (ascii ''VideoAnalytics/ObjectDetected'')"
    by code_simp+
  have hit: "is_detection (JStr (ascii ''VideoAnalytics/ObjectDetected'')) = Inr True"
    by (simp add: is_detection_def m)
  have nd: "\<not> is_dict (JInt 5)" by simp
  have h: "handle_event rt odd_payload (tr @ [Print ([0x1F4E8] @ ascii '' '' @ ascii ''data: '' @ odd_payload)]) =
     (Inl (AttributeError (quoted (type_name (JInt 5)) @ ascii '' object has no attribute '' @ quoted (ascii ''get''))),
      ((tr @ [Print ([0x1F4E8] @ ascii '' '' @ ascii ''data: '' @ odd_payload)]) @ [Loads odd_payload]) @
        map Print (take 3 (block_texts rt (JStr (ascii ''VideoAnalytics/ObjectDetected'')) [] (JStr (ascii ''Unknown'')))))"
    by (simp only: handle_event_dict[OF l] t d ts hit
        detection_block_not_dict[OF nd quiet_accepts[OF assms(2)]]) simp
  show ?thesis
    by (simp only: process_line_data[OF data_prefix s quiet_stdout[OF assms(2)]] strip_odd h)
       (simp add: block_texts_def ascii_def)
qed

lemma subscribe_first_line_raises:
  assumes "requests_get rt (subscription ip u p) = Inr resp" and "http_error resp = None"
    and "body resp = Yield line rest"
    and "process_line rt line (tr @ banner_lines ip @ [Get (subscription ip u p)]) = (Inl e, tr')"
    and "is_Exception e"
    and "quiet rt"
  shows "subscribe_to_events rt ip u p tr =
           Some (Inr (), tr' @ [Print ([0x274C] @ ascii '' Error: '' @ str_exn e)])"
proof -
  have k: "e \<noteq> KeyboardInterrupt"
    using assms(5) by auto
  have "try_body rt ip u p (tr @ banner_lines ip) = Some (Inl e, tr')"
    using assms(3,4) by (simp add: try_body_loop[OF assms(1,2)] for_lines_Yield)
  then show ?thesis
    using k
    by (simp add: subscribe_unfold[OF quiet_accepts[OF assms(6)]] handlers_Inl
        print_ok[OF quiet_stdout[OF assms(6)]])
qed

text \<open>
  Claim C5. Some \<^verbatim>\<open>data:\<close> lines stop the whole loop. The payload \<^verbatim>\<open>42\<close> is valid JSON but
  no object: reading its \<^verbatim>\<open>topic\<close> raises \<^verbatim>\<open>AttributeError\<close>, which the inner handler does
  not take, so the exception leaves the loop body. When such a line is the first of the
  body, the function prints the error message of the outer handler and returns, whatever
  lines follow (\<open>rest\<close>): none of them is processed. The same happens for an object with a
  matching topic whose \<^verbatim>\<open>data\<close> is a number, after the first three lines of the block.
  The standard output is one that takes every text.
\<close>

theorem non_object_payload_ends_the_loop:
  assumes "requests_get rt (subscription ip u p) = Inr resp"
    and "http_error resp = None"
    and "json_loads rt (ascii ''42'') = Inr (JInt 42)"
    and \<open>json_loads rt (ascii ''{"topic":"VideoAnalytics/ObjectDetected","data":5}'') =
           Inr (JDict [(ascii ''topic'', JStr (ascii ''VideoAnalytics/ObjectDetected'')),
                       (ascii ''data'', JInt 5)])\<close>
    and "quiet rt"
  shows \<open>process_line rt (Str (ascii ''data: 42'')) tr =
           (Inl (AttributeError
                  (quoted (ascii ''int'') @ ascii '' object has no attribute '' @ quoted (ascii ''get''))),
            tr @ [Print ([0x1F4E8] @ ascii '' data: 42''), Loads (ascii ''42'')]) \<and>
         (body resp = Yield (Str (ascii ''data: 42'')) rest \<longrightarrow>
            subscribe_to_events rt ip u p tr =
              Some (Inr (), tr @ banner_lines ip @
                [Get (subscription ip u p),
                 Print ([0x1F4E8] @ ascii '' data: 42''),
                 Loads (ascii ''42''),
                 Print ([0x274C] @ ascii '' Error: '' @
                   quoted (ascii ''int'') @ ascii '' object has no attribute '' @ quoted (ascii ''get''))])) \<and>
         (body resp = Yield (Str (ascii ''data: {"topic":"VideoAnalytics/ObjectDetected","data":5}'')) rest \<longrightarrow>
            subscribe_to_events rt ip u p tr =
              Some (Inr (), tr @ banner_lines ip @
                [Get (subscription ip u p),
                 Print ([0x1F4E8] @ ascii '' data: {"topic":"VideoAnalytics/ObjectDetected","data":5}''),
                 Loads (ascii ''{"topic":"VideoAnalytics/ObjectDetected","data":5}''),
                 Print ([0x1F3AF] @ ascii '' OBJECT DETECTION EVENT!''),
                 Print (ascii ''   '' @ [0x23F0] @ ascii '' Time: Unknown''),
                 Print (ascii ''   '' @ [0x1F4C2] @ ascii '' Topic: VideoAnalytics/ObjectDetected''),
                 Print ([0x274C] @ ascii '' Error: '' @
                   quoted (ascii ''int'') @ ascii '' object has no attribute '' @ quoted (ascii ''get''))]))\<close>
proof -
  let ?attr = "AttributeError (quoted (ascii ''int'') @ ascii '' object has no attribute '' @ quoted (ascii ''get''))"
  have l2: "json_loads rt odd_payload = Inr odd_event"
    using assms(4) by (simp add: odd_payload_def odd_event_def)
  have e42: "ascii '' '' @ ascii ''data: 42'' = ascii '' data: 42''"
    by (simp add: ascii_def)
  have odd: \<open>ascii ''data: {"topic":"VideoAnalytics/ObjectDetected","data":5}'' = ascii ''data: '' @ odd_payload\<close>
    \<open>ascii '' data: {"topic":"VideoAnalytics/ObjectDetected","data":5}'' = ascii '' data: '' @ odd_payload\<close>
    \<open>ascii ''{"topic":"VideoAnalytics/ObjectDetected","data":5}'' = odd_payload\<close>
    by (simp_all add: odd_payload_def ascii_def)
  have a: "process_line rt (Str (ascii ''data: 42'')) tr =
      (Inl ?attr, tr @ [Print ([0x1F4E8] @ ascii '' data: 42''), Loads (ascii ''42'')])"
    using process_line_42[OF assms(3,5), of tr] by (simp add: e42)
  have b: "body resp = Yield (Str (ascii ''data: 42'')) rest \<Longrightarrow>
      subscribe_to_events rt ip u p tr =
        Some (Inr (), tr @ banner_lines ip @
                [Get (subscription ip u p), Print ([0x1F4E8] @ ascii '' data: 42''), Loads (ascii ''42''),
                 Print ([0x274C] @ ascii '' Error: '' @ str_exn ?attr)])"
    using subscribe_first_line_raises[OF assms(1,2) _ process_line_42[OF assms(3,5)] _ assms(5),
        where rest = rest and tr = tr]
    by (simp add: e42)
  have c: "body resp = Yield (Str (ascii ''data: '' @ odd_payload)) rest \<Longrightarrow>
      subscribe_to_events rt ip u p tr =
        Some (Inr (), tr @ banner_lines ip @
                [Get (subscription ip u p), Print ([0x1F4E8] @ ascii '' data: '' @ odd_payload), Loads odd_payload,
                 Print ([0x1F3AF] @ ascii '' OBJECT DETECTION EVENT!''),
                 Print (ascii ''   '' @ [0x23F0] @ ascii '' Time: Unknown''),
                 Print (ascii ''   '' @ [0x1F4C2] @ ascii '' Topic: VideoAnalytics/ObjectDetected''),
                 Print ([0x274C] @ ascii '' Error: '' @ str_exn ?attr)])"
    using subscribe_first_line_raises[OF assms(1,2) _ process_line_odd[OF l2 assms(5)] _ assms(5),
        where rest = rest and tr = tr]
    by simp
  show ?thesis
    unfolding odd using a b c by simp
qed

lemma demo_loads_42: "demo_loads (ascii ''42'') = Inr (JInt 42)"
  by (simp add: demo_loads_def example_payload_def mixed_payload_def ascii_def)

lemma demo_loads_odd: "demo_loads odd_payload = Inr odd_event"
  by (simp add: demo_loads_def example_payload_def mixed_payload_def odd_payload_def ascii_def)

theorem non_object_payload_ends_the_loop_witness:
  "subscribe_to_events (demo (Yield (Str (ascii ''data: 42'')) (Yield (Str (ascii ''never read'')) Exhausted)))
       (ascii ''10.0.0.7'') (ascii ''root'') (ascii ''pass'') [] =
     Some (Inr (), banner_lines (ascii ''10.0.0.7'') @
       [Get (subscription (ascii ''10.0.0.7'') (ascii ''root'') (ascii ''pass'')),
        Print ([0x1F4E8] @ ascii '' data: 42''),
        Loads (ascii ''42''),
        Print ([0x274C] @ ascii '' Error: '' @
          quoted (ascii ''int'') @ ascii '' object has no attribute '' @ quoted (ascii ''get''))])"
proof -
  let ?b = "Yield (Str (ascii ''data: 42'')) (Yield (Str (ascii ''never read'')) Exhausted)"
  have h: "http_error \<lparr> http_error = None, body = ?b \<rparr> = None"
    by simp
  have l1: "json_loads (demo ?b) (ascii ''42'') = Inr (JInt 42)"
    by (simp add: demo_def demo_loads_42)
  have l2: \<open>json_loads (demo ?b) (ascii ''{"topic":"VideoAnalytics/ObjectDetected","data":5}'') =
           Inr (JDict [(ascii ''topic'', JStr (ascii ''VideoAnalytics/ObjectDetected'')),
                       (ascii ''data'', JInt 5)])\<close>
    using demo_loads_odd by (simp add: demo_def odd_payload_def odd_event_def)
  from non_object_payload_ends_the_loop[where rt = "demo ?b" and ip = "ascii ''10.0.0.7''"
      and u = "ascii ''root''" and p = "ascii ''pass''" and tr = "[]"
      and rest = "Yield (Str (ascii ''never read'')) Exhausted", OF demo_get h l1 l2 demo_quiet]
  show ?thesis by simp
qed

subsection \<open>The response is never closed\<close>

text \<open>
  Claim C6, as the code has it. The function holds no construct that closes the response:
  no \<^verbatim>\<open>with\<close> block, no \<^verbatim>\<open>finally\<close> clause, no call of \<^verbatim>\<open>close\<close>. A run that starts from
  the empty trace is never one that has released the response, and every run that returns
  has added to its trace nothing but prints, the one request and calls of the decoder.
  Whether the connection is released is left to the HTTP library and to the garbage
  collector.
\<close>

theorem subscribe_to_events_never_closes:
  "\<not> released (subscribe_to_events rt ip u p []) \<and>
   (\<forall>r tr'. subscribe_to_events rt ip u p tr = Some (r, tr') \<longrightarrow>
      (\<exists>acts. tr' = tr @ acts \<and> Close \<notin> set acts))"
proof -
  have "\<not> released (subscribe_to_events rt ip u p [])"
  proof (cases "subscribe_to_events rt ip u p []")
    case None
    then show ?thesis by (simp add: released_def)
  next
    case (Some y)
    obtain r tr' where y: "y = (r, tr')" by (cases y)
    from subscribe_no_Close[OF Some[unfolded y]] Some y show ?thesis
      by (auto simp add: released_def)
  qed
  with subscribe_no_Close[of rt ip u p tr] show ?thesis by blast
qed

lemma run_exhausted:
  "subscribe_to_events (demo Exhausted) ip u p tr =
     Some (Inr (), tr @ banner_lines ip @ [Get (subscription ip u p)])"
  by (simp add: subscribe_unfold[OF demo_accepts] try_body_loop[OF demo_get] for_lines_Exhausted handlers_Inr)

lemma run_interrupted:
  "subscribe_to_events (demo (Throw KeyboardInterrupt)) ip u p tr =
     Some (Inr (), tr @ banner_lines ip @
       [Get (subscription ip u p), Print ([10, 0x1F6D1] @ ascii '' Stopped by user'')])"
  by (simp add: subscribe_unfold[OF demo_accepts] try_body_loop[OF demo_get] for_lines_Throw
      handlers_Inl print_ok[OF demo_stdout])

lemma run_failed:
  "subscribe_to_events (demo (Throw (Exception m))) ip u p tr =
     Some (Inr (), tr @ banner_lines ip @
       [Get (subscription ip u p), Print ([0x274C] @ ascii '' Error: '' @ m)])"
  by (simp add: subscribe_unfold[OF demo_accepts] try_body_loop[OF demo_get] for_lines_Throw
      handlers_Inl print_ok[OF demo_stdout])

theorem subscribe_to_events_never_closes_witness:
  "\<not> released (subscribe_to_events (demo (Throw KeyboardInterrupt))
        (ascii ''10.0.0.7'') (ascii ''root'') (ascii ''pass'') []) \<and>
   (\<exists>acts. [Print (ascii ''earlier'')] @ banner_lines (ascii ''10.0.0.7'') @
        [Get (subscription (ascii ''10.0.0.7'') (ascii ''root'') (ascii ''pass'')),
         Print ([10, 0x1F6D1] @ ascii '' Stopped by user'')] = [Print (ascii ''earlier'')] @ acts \<and>
      Close \<notin> set acts)"
  using subscribe_to_events_never_closes[where rt = "demo (Throw KeyboardInterrupt)"
      and ip = "ascii ''10.0.0.7''" and u = "ascii ''root''" and p = "ascii ''pass''"
      and tr = "[Print (ascii ''earlier'')]"]
    run_interrupted[of "ascii ''10.0.0.7''" "ascii ''root''" "ascii ''pass''" "[Print (ascii ''earlier'')]"]
  by blast

text \<open>
  Claim C6, as the specification states it, fails on each of the three exit paths. With a
  camera that accepts the request, the function returns after the end of the body, after
  a keyboard interrupt and after another exception, and in none of the three runs has the
  response been released.
\<close>

theorem response_released_on_exit_counterexample:
  "subscribe_to_events (demo Exhausted) (ascii ''10.0.0.7'') (ascii ''root'') (ascii ''pass'') [] =
     Some (Inr (), banner_lines (ascii ''10.0.0.7'') @
       [Get (subscription (ascii ''10.0.0.7'') (ascii ''root'') (ascii ''pass''))]) \<and>
   \<not> released (subscribe_to_events (demo Exhausted) (ascii ''10.0.0.7'') (ascii ''root'') (ascii ''pass'') []) \<and>
   subscribe_to_events (demo (Throw KeyboardInterrupt)) (ascii ''10.0.0.7'') (ascii ''root'') (ascii ''pass'') [] =
     Some (Inr (), banner_lines (ascii ''10.0.0.7'') @
       [Get (subscription (ascii ''10.0.0.7'') (ascii ''root'') (ascii ''pass'')),
        Print ([10, 0x1F6D1] @ ascii '' Stopped by user'')]) \<and>
   \<not> released (subscribe_to_events (demo (Throw KeyboardInterrupt))
        (ascii ''10.0.0.7'') (ascii ''root'') (ascii ''pass'') []) \<and>
   subscribe_to_events (demo (Throw (Exception (ascii ''Connection broken''))))
       (ascii ''10.0.0.7'') (ascii ''root'') (ascii ''pass'') [] =
     Some (Inr (), banner_lines (ascii ''10.0.0.7'') @
       [Get (subscription (ascii ''10.0.0.7'') (ascii ''root'') (ascii ''pass'')),
        Print ([0x274C] @ ascii '' Error: '' @ ascii ''Connection broken'')]) \<and>
   \<not> released (subscribe_to_events (demo (Throw (Exception (ascii ''Connection broken''))))
        (ascii ''10.0.0.7'') (ascii ''root'') (ascii ''pass'') [])"
  by (simp add: run_exhausted run_interrupted run_failed released_def banner_lines_def banner_texts_def)

subsection \<open>The request\<close>

text \<open>
  Claim C10. Whatever the camera address, a run that returns has either ended in the
  banner, when one of its prints raised, or issued exactly one request, right after the
  banner and before anything else: a \<^verbatim>\<open>requests.get\<close> of
  \<^verbatim>\<open>http://<camera_ip>/axis-cgi/event.cgi\<close> with the parameters \<^verbatim>\<open>action=subscribe\<close> and
  \<^verbatim>\<open>events=tns1:VideoAnalytics/*\<close>, digest authentication with the given user name and
  password, streaming on, and a timeout of 60. A call that leaves the credentials out
  uses \<^verbatim>\<open>root\<close> and \<^verbatim>\<open>pass\<close>.
\<close>

theorem subscription_request_sent:
  "(\<forall>r tr'. subscribe_to_events rt ip u p tr = Some (r, tr') \<longrightarrow>
      (\<exists>e. r = Inl e \<and> banner rt ip tr = (Inl e, tr')) \<or>
      (\<exists>acts. tr' = tr @ banner_lines ip @
          Get \<lparr> url = ascii ''http://'' @ ip @ ascii ''/axis-cgi/event.cgi'',
                params = [(ascii ''action'', ascii ''subscribe''),
                          (ascii ''events'', ascii ''tns1:VideoAnalytics/*'')],
                auth = HTTPDigestAuth u p,
                stream = True,
                timeout = 60 \<rparr> # acts \<and>
        list_all local_action acts)) \<and>
   (\<forall>r tr'. subscribe_to_events_default rt ip tr = Some (r, tr') \<longrightarrow>
      (\<exists>e. r = Inl e \<and> banner rt ip tr = (Inl e, tr')) \<or>
      (\<exists>acts. tr' = tr @ banner_lines ip @
          Get \<lparr> url = ascii ''http://'' @ ip @ ascii ''/axis-cgi/event.cgi'',
                params = [(ascii ''action'', ascii ''subscribe''),
                          (ascii ''events'', ascii ''tns1:VideoAnalytics/*'')],
                auth = HTTPDigestAuth (ascii ''root'') (ascii ''pass''),
                stream = True,
                timeout = 60 \<rparr> # acts \<and>
        list_all local_action acts))"
proof -
  have gen: "(\<exists>e. r = Inl e \<and> banner rt ip tr = (Inl e, tr')) \<or>
      (\<exists>acts. tr' = tr @ banner_lines ip @ Get (subscription ip u' p') # acts \<and> list_all local_action acts)"
    if run: "subscribe_to_events rt ip u' p' tr = Some (r, tr')" for r tr' u' p'
  proof (cases "banner rt ip tr")
    case (Pair r0 tr0)
    show ?thesis
    proof (cases r0)
      case (Inl e)
      with Pair run show ?thesis by (auto simp add: subscribe_banner_fails)
    next
      case (Inr x)
      from banner_done[OF Pair[unfolded Inr]] have "accepts rt tr (banner_texts ip)" by blast
      from subscribe_shape[OF run this] show ?thesis by blast
    qed
  qed
  show ?thesis
    using gen[of u p] gen[of "ascii ''root''" "ascii ''pass''"]
    by (simp add: subscribe_to_events_default_def subscription_def)
qed

theorem subscription_request_sent_witness:
  "main (demo Exhausted) =
     Some (Inr (), banner_lines (ascii ''169.254.118.229'') @
        [Get \<lparr> url = ascii ''http://169.254.118.229/axis-cgi/event.cgi'',
               params = [(ascii ''action'', ascii ''subscribe''),
                         (ascii ''events'', ascii ''tns1:VideoAnalytics/*'')],
               auth = HTTPDigestAuth (ascii ''root'') (ascii ''pass''),
               stream = True,
               timeout = 60 \<rparr>])"
proof -
  let ?ip = "ascii ''169.254.118.229''"
  have run: "subscribe_to_events_default (demo Exhausted) ?ip [] =
      Some (Inr (), banner_lines ?ip @ [Get (subscription ?ip (ascii ''root'') (ascii ''pass''))])"
    by (simp add: subscribe_to_events_default_def run_exhausted)
  from subscription_request_sent[where rt = "demo Exhausted" and ip = ?ip and tr = "[]"] run
  obtain acts where t: "banner_lines ?ip @ [Get (subscription ?ip (ascii ''root'') (ascii ''pass''))] =
      banner_lines ?ip @
          Get \<lparr> url = ascii ''http://'' @ ?ip @ ascii ''/axis-cgi/event.cgi'',
                params = [(ascii ''action'', ascii ''subscribe''),
                          (ascii ''events'', ascii ''tns1:VideoAnalytics/*'')],
                auth = HTTPDigestAuth (ascii ''root'') (ascii ''pass''),
                stream = True,
                timeout = 60 \<rparr> # acts"
    by auto
  then have "acts = []" by simp
  with t run have "main (demo Exhausted) =
      Some (Inr (), banner_lines ?ip @
          [Get \<lparr> url = ascii ''http://'' @ ?ip @ ascii ''/axis-cgi/event.cgi'',
                params = [(ascii ''action'', ascii ''subscribe''),
                          (ascii ''events'', ascii ''tns1:VideoAnalytics/*'')],
                auth = HTTPDigestAuth (ascii ''root'') (ascii ''pass''),
                stream = True,
                timeout = 60 \<rparr>])"
    by (simp add: main_def)
  then show ?thesis by (simp add: ascii_def)
qed

subsection \<open>A decoder that fails otherwise\<close>

text \<open>
  Claim C1, as the specification states it, fails for a payload that is not malformed
  JSON and still cannot be decoded. On 1100 opening brackets \<^verbatim>\<open>json.loads\<close> raises
  \<^verbatim>\<open>RecursionError\<close>, which line 54 does not take: the outer handler prints the error and
  the function returns without reading the line that follows.
\<close>

theorem decode_failure_is_skipped_counterexample:
  "subscribe_to_events
       (demo (Yield (Str (ascii ''data: '' @ replicate 1100 91)) (Yield (Str (ascii ''next'')) Exhausted)))
       (ascii ''10.0.0.7'') (ascii ''root'') (ascii ''pass'') [] =
     Some (Inr (), banner_lines (ascii ''10.0.0.7'') @
       [Get (subscription (ascii ''10.0.0.7'') (ascii ''root'') (ascii ''pass'')),
        Print ([0x1F4E8] @ ascii '' data: '' @ replicate 1100 91),
        Loads (replicate 1100 91),
        Print ([0x274C] @ ascii '' Error: maximum recursion depth exceeded'')])"
proof -
  let ?rt = "demo (Yield (Str (ascii ''data: '' @ deep_payload)) (Yield (Str (ascii ''next'')) Exhausted))"
  let ?ip = "ascii ''10.0.0.7''" and ?u = "ascii ''root''" and ?p = "ascii ''pass''"
  let ?tr = "[] @ banner_lines ?ip @ [Get (subscription ?ip ?u ?p)]"
  have s: "strip (drop 5 (ascii ''data: '' @ deep_payload)) \<noteq> []"
    by (simp only: strip_deep) (simp add: hd_deep)
  have l: "json_loads ?rt deep_payload = Inl (RecursionError (ascii ''maximum recursion depth exceeded''))"
    by (simp add: demo_def demo_loads_deep)
  have pl: "process_line ?rt (Str (ascii ''data: '' @ deep_payload)) ?tr =
      (Inl (RecursionError (ascii ''maximum recursion depth exceeded'')),
       ?tr @ [Print ([0x1F4E8] @ ascii '' '' @ ascii ''data: '' @ deep_payload), Loads deep_payload])"
    by (simp only: process_line_data[OF data_prefix s demo_stdout] strip_deep handle_event_error[OF l])
       simp
  have h: "http_error \<lparr> http_error = None, body = Yield (Str (ascii ''data: '' @ deep_payload))
      (Yield (Str (ascii ''next'')) Exhausted) \<rparr> = None"
    by simp
  have e: "ascii '' '' @ ascii ''data: '' @ deep_payload = ascii '' data: '' @ deep_payload"
    "ascii '' Error: '' @ ascii ''maximum recursion depth exceeded'' =
     ascii '' Error: maximum recursion depth exceeded''"
    by (simp_all add: ascii_def)
  from subscribe_first_line_raises[OF demo_get h _ pl _ demo_quiet]
  have "subscribe_to_events ?rt ?ip ?u ?p [] =
     Some (Inr (), banner_lines ?ip @
       [Get (subscription ?ip ?u ?p),
        Print ([0x1F4E8] @ ascii '' data: '' @ deep_payload),
        Loads deep_payload,
        Print ([0x274C] @ ascii '' Error: maximum recursion depth exceeded'')])"
    by (simp add: e)
  then show ?thesis by (simp only: deep_payload_def)
qed

subsection \<open>When the decoder is called\<close>

text \<open>
  Claim C8, as the code has it. The loop body calls \<^verbatim>\<open>json.loads\<close> for a line exactly when
  the line is a text line that starts with \<^verbatim>\<open>data:\<close>, what follows the prefix is not empty
  once stripped of surrounding whitespace, and the echo of the line has been printed; the
  call is then made once, on that stripped rest. A text line that is not empty and does
  not start with \<^verbatim>\<open>data:\<close> is echoed, when the print succeeds, and nothing else happens.
\<close>

theorem decoding_attempted_iff:
  "decoded (snd (process_line rt line tr)) =
     decoded tr @
       (case line of
          Str s \<Rightarrow>
            if prefix (ascii ''data:'') s \<and> strip (drop 5 s) \<noteq> [] \<and>
               stdout rt tr ([0x1F4E8] @ ascii '' '' @ s) = None
            then [strip (drop 5 s)] else []
        | Bytes b \<Rightarrow> []) \<and>
   (s \<noteq> [] \<and> \<not> prefix (ascii ''data:'') s \<and> stdout rt tr ([0x1F4E8] @ ascii '' '' @ s) = None \<longrightarrow>
      process_line rt (Str s) tr = (Inr (), tr @ [Print ([0x1F4E8] @ ascii '' '' @ s)]))"
proof -
  have str: "decoded (snd (process_line rt (Str t) tr)) =
     decoded tr @
       (if prefix (ascii ''data:'') t \<and> strip (drop 5 t) \<noteq> [] \<and>
           stdout rt tr ([0x1F4E8] @ ascii '' '' @ t) = None
        then [strip (drop 5 t)] else [])" for t
  proof (cases "t = []")
    case True
    then show ?thesis by (simp add: process_line_empty ascii_def)
  next
    case ne: False
    show ?thesis
    proof (cases "stdout rt tr ([0x1F4E8] @ ascii '' '' @ t)")
      case (Some e)
      with ne show ?thesis by (simp add: process_line_refused)
    next
      case acc: None
      show ?thesis
      proof (cases "prefix (ascii ''data:'') t")
        case False
        with ne acc show ?thesis by (simp add: process_line_other decoded_append)
      next
        case pre: True
        show ?thesis
        proof (cases "strip (drop 5 t) = []")
          case True
          with pre acc show ?thesis by (simp add: process_line_blank decoded_append)
        next
          case False
          let ?tr1 = "tr @ [Print ([0x1F4E8] @ ascii '' '' @ t)]"
          obtain r acts where h: "handle_event rt (strip (drop 5 t)) ?tr1 =
              (r, ?tr1 @ Loads (strip (drop 5 t)) # acts)"
            and p: "list_all is_Print acts"
            using handle_event_shape by blast
          show ?thesis
            using pre False acc h decoded_prints[OF p]
            by (cases r) (simp_all add: process_line_data decoded_append)
        qed
      qed
    qed
  qed
  have bytes: "decoded (snd (process_line rt (Bytes b) tr)) = decoded tr" for b
  proof (cases "b = []")
    case True
    then show ?thesis by (simp add: process_line_empty)
  next
    case ne: False
    show ?thesis
    proof (cases "stdout rt tr ([0x1F4E8] @ ascii '' '' @ bytes_repr b)")
      case (Some e)
      with ne show ?thesis by (simp add: process_line_bytes_refused)
    next
      case None
      with ne show ?thesis by (simp add: process_line_bytes decoded_append)
    qed
  qed
  show ?thesis
    using str bytes by (cases line) (simp_all add: process_line_other)
qed

lemma keep_alive_line: "ascii '': keep-alive'' \<noteq> []" "\<not> prefix (ascii ''data:'') (ascii '': keep-alive'')"
  by (simp_all add: ascii_def)

theorem decoding_attempted_iff_witness:
  "decoded (snd (process_line (demo Exhausted) (Str (ascii ''data: not json'')) [])) = [ascii ''not json''] \<and>
   decoded (snd (process_line (demo Exhausted) (Str (ascii ''data:   '')) [])) = [] \<and>
   process_line (demo Exhausted) (Str (ascii '': keep-alive'')) [] =
     (Inr (), [Print ([0x1F4E8] @ ascii '' '' @ ascii '': keep-alive'')])"
proof -
  have p: "prefix (ascii ''data:'') (ascii ''data: not json'')"
    by (simp add: ascii_def)
  have s: "strip (drop 5 (ascii ''data: not json'')) \<noteq> []"
    by (simp add: strip_not_json) (simp add: ascii_def)
  have p2: "prefix (ascii ''data:'') (ascii ''data:   '')"
    by (simp add: ascii_def)
  have s2: "strip (drop 5 (ascii ''data:   '')) = []"
    by (simp add: strip_def isspace_def ascii_def)
  from decoding_attempted_iff[where rt = "demo Exhausted" and line = "Str (ascii ''data: not json'')"
      and tr = "[]" and s = "ascii '': keep-alive''"]
    decoding_attempted_iff[where rt = "demo Exhausted" and line = "Str (ascii ''data:   '')"
      and tr = "[]" and s = "ascii '': keep-alive''"]
  show ?thesis
    using p s p2 s2 keep_alive_line by (simp add: strip_not_json demo_stdout)
qed

lemma bytes_repr_data: "bytes_repr ''data: 42'' = ascii ''b'' @ quoted (ascii ''data: 42'')"
  by (simp add: bytes_repr_def escape_byte_def quoted_def ascii_def)

lemma ascii_stdout_data:
  "ascii_stdout tr ([0x1F4E8] @ ascii '' '' @ ascii ''data: 42'') =
     Some (UnicodeEncodeError
       (quoted (ascii ''ascii'') @ ascii '' codec can'' @ [39] @ ascii ''t encode character '' @
        quoted ([92] @ ascii ''U0001f4e8'') @ ascii '' in position 0: ordinal not in range(128)''))"
  by (simp add: ascii_stdout_def encode_error_def escaped_def hex_numeral hex_digit_def quoted_def
      ascii_def digits_small)

text \<open>
  Claim C8, as the specification states it, fails in two ways. A response that names no
  charset yields bytes lines: the line \<^verbatim>\<open>b'data: 42'\<close> starts with \<^verbatim>\<open>data:\<close> and has a rest,
  yet line 34 raises \<^verbatim>\<open>TypeError\<close> and the decoder is never called. And when the echo of a
  text line cannot be printed, the exception leaves the loop body before line 34.
\<close>

theorem decoding_attempted_iff_counterexample:
  "process_line (demo Exhausted) (Bytes ''data: 42'') [] =
     (Inl (TypeError (ascii ''startswith first arg must be bytes or a tuple of bytes, not str'')),
      [Print ([0x1F4E8] @ ascii '' b'' @ quoted (ascii ''data: 42''))]) \<and>
   decoded (snd (process_line (demo Exhausted) (Bytes ''data: 42'') [])) = [] \<and>
   process_line (demo Exhausted \<lparr>stdout := ascii_stdout\<rparr>) (Str (ascii ''data: 42'')) [] =
     (Inl (UnicodeEncodeError
       (quoted (ascii ''ascii'') @ ascii '' codec can'' @ [39] @ ascii ''t encode character '' @
        quoted ([92] @ ascii ''U0001f4e8'') @ ascii '' in position 0: ordinal not in range(128)'')),
      []) \<and>
   decoded (snd (process_line (demo Exhausted \<lparr>stdout := ascii_stdout\<rparr>) (Str (ascii ''data: 42'')) [])) = []"
proof -
  have a: "process_line (demo Exhausted) (Bytes ''data: 42'') [] =
     (Inl (TypeError (ascii ''startswith first arg must be bytes or a tuple of bytes, not str'')),
      [Print ([0x1F4E8] @ ascii '' b'' @ quoted (ascii ''data: 42''))])"
    by (simp add: process_line_bytes demo_stdout bytes_repr_data) (simp add: ascii_def)
  have ne: "ascii ''data: 42'' \<noteq> []" by (simp add: ascii_def)
  have c: "process_line (demo Exhausted \<lparr>stdout := ascii_stdout\<rparr>) (Str (ascii ''data: 42'')) [] =
     (Inl (UnicodeEncodeError
       (quoted (ascii ''ascii'') @ ascii '' codec can'' @ [39] @ ascii ''t encode character '' @
        quoted ([92] @ ascii ''U0001f4e8'') @ ascii '' in position 0: ordinal not in range(128)'')),
      [])"
    by (rule process_line_refused[OF ne]) (simp only: demo_update ascii_stdout_data)
  show ?thesis
    by (simp only: a c) simp
qed

subsection \<open>The text of a value\<close>

text \<open>
  The decimal text of a natural number is made of digits, reads back as the number, and
  has no leading zero: it is the one decimal numeral of the number.
\<close>

lemma digits_are_digits: "\<forall>d \<in> set (digits n). 48 \<le> d \<and> d \<le> 57"
proof (induction n rule: digits.induct)
  case (1 n)
  show ?case
  proof (cases "n < 10")
    case True
    then show ?thesis by (simp add: digits_small)
  next
    case False
    with 1 show ?thesis by (auto simp add: digits_big)
  qed
qed

lemma value_of_snoc: "value_of (ds @ [d]) = 10 * value_of ds + (d - 48)"
  by (simp add: value_of_def)

lemma value_of_digits: "value_of (digits n) = n"
proof (induction n rule: digits.induct)
  case (1 n)
  show ?case
  proof (cases "n < 10")
    case True
    then show ?thesis by (simp add: digits_small value_of_def)
  next
    case False
    with 1 show ?thesis by (simp add: digits_big value_of_snoc)
  qed
qed

lemma digits_nonempty: "digits n \<noteq> []"
  by (subst digits.simps) simp

lemma digits_no_leading_zero: "0 < n \<Longrightarrow> hd (digits n) \<noteq> 48"
proof (induction n rule: digits.induct)
  case (1 n)
  show ?case
  proof (cases "n < 10")
    case True
    with 1(2) show ?thesis by (simp add: digits_small)
  next
    case False
    then have "0 < n div 10" by simp
    with 1(1)[OF False] False show ?thesis
      by (simp add: digits_big digits_nonempty)
  qed
qed

lemma py_str_cases:
  "py_str pr (JStr s) = s"
  "py_str pr (JInt i) = (if i < 0 then 45 # digits (nat (- i)) else digits (nat i))"
  "py_str pr (JBool True) = ascii ''True''"
  "py_str pr (JBool False) = ascii ''False''"
  "py_str pr JNull = ascii ''None''"
  "py_str pr (JFloat f) = f"
  "py_str pr (JList xs) = ascii ''['' @ join (ascii '', '') (map (py_repr pr) xs) @ ascii '']''"
  by (simp_all add: str_int_def)

subsection \<open>The detection block\<close>

lemma is_detection_str:
  "is_detection (JStr topic) =
     Inr (sublist (ascii ''VideoAnalytics'') topic \<and> sublist (ascii ''ObjectDetected'') topic)"
  by (simp add: is_detection_def)

text \<open>
  The test of line 45 is Python's \<^verbatim>\<open>in\<close>, so it is a substring test only on a string. On
  a list it asks for both words among the elements, and on a number it raises
  \<^verbatim>\<open>TypeError\<close>, which the inner handler does not take.
\<close>

lemma is_detection_list:
  "is_detection (JList xs) =
     Inr (JStr (ascii ''VideoAnalytics'') \<in> set xs \<and> JStr (ascii ''ObjectDetected'') \<in> set xs)"
  by (simp add: is_detection_def)

lemma is_detection_number:
  "is_detection (JInt i) =
     Inl (TypeError (ascii ''argument of type '' @ quoted (ascii ''int'') @ ascii '' is not iterable''))"
  by (simp add: is_detection_def)

lemma process_line_envelope:
  assumes "prefix (ascii ''data:'') line"
    and "strip (drop 5 line) \<noteq> []"
    and "json_loads rt (strip (drop 5 line)) = Inr (JDict kvs)"
    and "dict_get kvs (ascii ''topic'') (JStr (ascii ''Unknown'')) = JStr topic"
    and "dict_get kvs (ascii ''data'') (JDict []) = JDict d"
    and "stdout rt tr ([0x1F4E8] @ ascii '' '' @ line) = None"
    and "sublist (ascii ''VideoAnalytics'') topic \<and> sublist (ascii ''ObjectDetected'') topic \<longrightarrow>
         accepts rt (tr @ [Print ([0x1F4E8] @ ascii '' '' @ line), Loads (strip (drop 5 line))])
           (block_texts rt (JStr topic) d (dict_get kvs (ascii ''@timestamp'') (JStr (ascii ''Unknown''))))"
  shows "process_line rt (Str line) tr =
           (Inr (), tr @ [Print ([0x1F4E8] @ ascii '' '' @ line), Loads (strip (drop 5 line))] @
              (if sublist (ascii ''VideoAnalytics'') topic \<and> sublist (ascii ''ObjectDetected'') topic
               then map Print
                 (block_texts rt (JStr topic) d (dict_get kvs (ascii ''@timestamp'') (JStr (ascii ''Unknown''))))
               else []))"
proof (cases "sublist (ascii ''VideoAnalytics'') topic \<and> sublist (ascii ''ObjectDetected'') topic")
  case False
  with assms(1-6) show ?thesis
    by (auto simp add: process_line_data handle_event_dict is_detection_str)
next
  case True
  with assms(7) have acc: "accepts rt ((tr @ [Print ([0x1F4E8] @ ascii '' '' @ line)]) @ [Loads (strip (drop 5 line))])
           (block_texts rt (JStr topic) d (dict_get kvs (ascii ''@timestamp'') (JStr (ascii ''Unknown''))))"
    by simp
  have hit: "is_detection (JStr topic) = Inr True"
    using True by (simp add: is_detection_str)
  show ?thesis
    by (simp only: process_line_data[OF assms(1,2,6)] handle_event_dict[OF assms(3)] assms(4,5) hit
        detection_block_dict[OF acc])
       (simp add: True)
qed

text \<open>
  Claim C2, as the code has it. Take a text line whose payload decodes to an event
  envelope: a JSON object whose \<^verbatim>\<open>topic\<close>, if present, is a string and whose \<^verbatim>\<open>data\<close>, if
  present, is an object (absent fields take the defaults \<^verbatim>\<open>"Unknown"\<close> and the empty
  object). Provided the standard output takes the echo and, when the block is due, the
  texts of the block, the loop body prints after the echo and the call of the decoder the
  detection block if the topic has \<^verbatim>\<open>VideoAnalytics\<close> as a substring and has
  \<^verbatim>\<open>ObjectDetected\<close> as a substring, and prints nothing more otherwise. The block is seven
  lines: the heading, the timestamp, the topic, then the values of \<^verbatim>\<open>ObjectClass\<close>,
  \<^verbatim>\<open>Confidence\<close> and \<^verbatim>\<open>BoundingBox\<close> in \<^verbatim>\<open>data\<close>, each \<^verbatim>\<open>N/A\<close> when \<^verbatim>\<open>data\<close> has no such key,
  and a rule of sixty dashes. A value is shown as \<^verbatim>\<open>str\<close> gives it.
\<close>

theorem detection_block_iff_topic_matches:
  assumes "prefix (ascii ''data:'') line"
    and "strip (drop 5 line) \<noteq> []"
    and "json_loads rt (strip (drop 5 line)) = Inr (JDict kvs)"
    and "dict_get kvs (ascii ''topic'') (JStr (ascii ''Unknown'')) = JStr topic"
    and "dict_get kvs (ascii ''data'') (JDict []) = JDict d"
    and "stdout rt tr ([0x1F4E8] @ ascii '' '' @ line) = None"
  shows "let hit = (sublist (ascii ''VideoAnalytics'') topic \<and> sublist (ascii ''ObjectDetected'') topic);
             texts =
               [[0x1F3AF] @ ascii '' OBJECT DETECTION EVENT!'',
                ascii ''   '' @ [0x23F0] @ ascii '' Time: '' @
                  py_str (isprintable rt) (dict_get kvs (ascii ''@timestamp'') (JStr (ascii ''Unknown''))),
                ascii ''   '' @ [0x1F4C2] @ ascii '' Topic: '' @ topic,
                ascii ''   '' @ [0x1F3F7, 0xFE0F] @ ascii ''  Class: '' @
                  py_str (isprintable rt)
                    (case map_of d (ascii ''ObjectClass'') of Some v \<Rightarrow> v | None \<Rightarrow> JStr (ascii ''N/A'')),
                ascii ''   '' @ [0x1F4CA] @ ascii '' Confidence: '' @
                  py_str (isprintable rt)
                    (case map_of d (ascii ''Confidence'') of Some v \<Rightarrow> v | None \<Rightarrow> JStr (ascii ''N/A'')),
                ascii ''   '' @ [0x1F4D0] @ ascii '' BBox: '' @
                  py_str (isprintable rt)
                    (case map_of d (ascii ''BoundingBox'') of Some v \<Rightarrow> v | None \<Rightarrow> JStr (ascii ''N/A'')),
                replicate 60 45]
         in (hit \<longrightarrow>
               accepts rt (tr @ [Print ([0x1F4E8] @ ascii '' '' @ line), Loads (strip (drop 5 line))]) texts) \<longrightarrow>
            process_line rt (Str line) tr =
              (Inr (), tr @ [Print ([0x1F4E8] @ ascii '' '' @ line), Loads (strip (drop 5 line))] @
                 (if hit then map Print texts else []))"
  using process_line_envelope[OF assms]
  by (simp add: Let_def block_texts_def dict_get_def)

lemma strip_mixed: "strip (drop 5 (ascii ''data: '' @ mixed_payload)) = mixed_payload"
  by (simp add: strip_def isspace_def ascii_def mixed_payload_def)

lemma mixed_payload_nonempty: "mixed_payload \<noteq> []"
  by (simp add: mixed_payload_def ascii_def)

lemma demo_loads_mixed: "demo_loads mixed_payload = Inr mixed_event"
  by (simp add: demo_loads_def example_payload_def mixed_payload_def ascii_def)

lemma example_topic_matches:
  "sublist (ascii ''VideoAnalytics'') (ascii ''tns1:VideoAnalytics/ObjectDetected'')"
  "sublist (ascii ''ObjectDetected'') (ascii ''tns1:VideoAnalytics/ObjectDetected'')"
  by code_simp+

lemma mixed_box_text:
  "py_str pr (JList [JInt 10, JInt (- 20), JFloat (ascii ''0.5''), JBool True, JNull,
                     JDict [(ascii ''a'', JStr (ascii ''b''))]]) =
   ascii ''[10, -20, 0.5, True, None, {'' @ quoted (ascii ''a'') @ ascii '': '' @ quoted (ascii ''b'') @ ascii ''}]''"
  by (simp add: str_int_def digits_small digits_big str_repr_def escape_def quoted_def ascii_def)

lemma mixed_number_texts:
  "py_str pr (JInt 87) = ascii ''87''"
  "py_str pr (JInt 1700000000) = ascii ''1700000000''"
  by (simp_all add: str_int_def digits_small digits_big ascii_def)

theorem detection_block_iff_topic_matches_witness:
  "process_line (demo Exhausted) (Str (ascii ''data: '' @ mixed_payload)) [] =
     (Inr (),
      [Print ([0x1F4E8] @ ascii '' data: '' @ mixed_payload),
       Loads mixed_payload,
       Print ([0x1F3AF] @ ascii '' OBJECT DETECTION EVENT!''),
       Print (ascii ''   '' @ [0x23F0] @ ascii '' Time: 1700000000''),
       Print (ascii ''   '' @ [0x1F4C2] @ ascii '' Topic: tns1:VideoAnalytics/ObjectDetected''),
       Print (ascii ''   '' @ [0x1F3F7, 0xFE0F] @ ascii ''  Class: car''),
       Print (ascii ''   '' @ [0x1F4CA] @ ascii '' Confidence: 87''),
       Print (ascii ''   '' @ [0x1F4D0] @ ascii '' BBox: [10, -20, 0.5, True, None, {'' @
                quoted (ascii ''a'') @ ascii '': '' @ quoted (ascii ''b'') @ ascii ''}]''),
       Print (replicate 60 45)])"
proof -
  let ?box = "JList [JInt 10, JInt (- 20), JFloat (ascii ''0.5''), JBool True, JNull,
                     JDict [(ascii ''a'', JStr (ascii ''b''))]]"
  let ?d = "[(ascii ''ObjectClass'', JStr (ascii ''car'')), (ascii ''Confidence'', JInt 87),
             (ascii ''BoundingBox'', ?box)]"
  let ?kvs = "[(ascii ''topic'', JStr (ascii ''tns1:VideoAnalytics/ObjectDetected'')),
      (ascii ''data'', JDict ?d), (ascii ''@timestamp'', JInt 1700000000)]"
  have p: "prefix (ascii ''data:'') (ascii ''data: '' @ mixed_payload)"
    by (rule data_prefix)
  have s: "strip (drop 5 (ascii ''data: '' @ mixed_payload)) \<noteq> []"
    by (simp only: strip_mixed mixed_payload_nonempty not_False_eq_True)
  have l: "json_loads (demo Exhausted) (strip (drop 5 (ascii ''data: '' @ mixed_payload))) = Inr (JDict ?kvs)"
    by (simp only: strip_mixed) (simp add: demo_def demo_loads_mixed mixed_event_def)
  have t: "dict_get ?kvs (ascii ''topic'') (JStr (ascii ''Unknown'')) =
             JStr (ascii ''tns1:VideoAnalytics/ObjectDetected'')"
    by (simp add: dict_get_def)
  have d: "dict_get ?kvs (ascii ''data'') (JDict []) = JDict ?d"
    by (simp add: dict_get_def ascii_def)
  have ts: "dict_get ?kvs (ascii ''@timestamp'') (JStr (ascii ''Unknown'')) = JInt 1700000000"
    by (simp add: dict_get_def ascii_def)
  have f: "map_of ?d (ascii ''ObjectClass'') = Some (JStr (ascii ''car''))"
          "map_of ?d (ascii ''Confidence'') = Some (JInt 87)"
          "map_of ?d (ascii ''BoundingBox'') = Some ?box"
    by (simp_all add: ascii_def)
  from detection_block_iff_topic_matches[where tr = "[]", OF p s l t d demo_stdout]
  have "process_line (demo Exhausted) (Str (ascii ''data: '' @ mixed_payload)) [] =
     (Inr (),
      [] @ [Print ([0x1F4E8] @ ascii '' '' @ ascii ''data: '' @ mixed_payload), Loads mixed_payload] @
      map Print
       [[0x1F3AF] @ ascii '' OBJECT DETECTION EVENT!'',
        ascii ''   '' @ [0x23F0] @ ascii '' Time: '' @ ascii ''1700000000'',
        ascii ''   '' @ [0x1F4C2] @ ascii '' Topic: '' @ ascii ''tns1:VideoAnalytics/ObjectDetected'',
        ascii ''   '' @ [0x1F3F7, 0xFE0F] @ ascii ''  Class: '' @ ascii ''car'',
        ascii ''   '' @ [0x1F4CA] @ ascii '' Confidence: '' @ ascii ''87'',
        ascii ''   '' @ [0x1F4D0] @ ascii '' BBox: '' @
          ascii ''[10, -20, 0.5, True, None, {'' @ quoted (ascii ''a'') @ ascii '': '' @
          quoted (ascii ''b'') @ ascii ''}]'',
        replicate 60 45])"
    by (simp only: Let_def strip_mixed ts f option.case example_topic_matches demo_accepts
        mixed_box_text mixed_number_texts py_str.simps(1) simp_thms if_True)
  then show ?thesis by (simp add: ascii_def)
qed

lemma strip_surrogate: "strip (drop 5 (ascii ''data: '' @ surrogate_payload)) = surrogate_payload"
  by (simp add: strip_def isspace_def ascii_def surrogate_payload_def)

lemma demo_loads_surrogate: "demo_loads surrogate_payload = Inr surrogate_event"
  by (simp add: demo_loads_def example_payload_def mixed_payload_def odd_payload_def
      surrogate_payload_def ascii_def)

lemma detection_block_refused:
  assumes "accepts rt tr (take 3 (block_texts rt topic d timestamp))"
    and "stdout rt (tr @ map Print (take 3 (block_texts rt topic d timestamp)))
           (block_texts rt topic d timestamp ! 3) = Some e"
  shows "detection_block rt topic (JDict d) timestamp tr =
     (Inl e, tr @ map Print (take 3 (block_texts rt topic d timestamp)))"
  using assms
  by (simp add: detection_block_def print_field_def bind_def print_def lift_def block_texts_def)

lemma encode_error_none:
  assumes "\<forall>c \<in> set s. \<not> bad c"
  shows "encode_error codec bad reason s = None"
proof -
  have tw: "takeWhile (\<lambda>c. \<not> bad c) s = s"
    using assms by (simp add: takeWhile_eq_all_conv)
  show ?thesis
    unfolding encode_error_def Let_def tw by simp
qed

lemma utf8_stdout_plain:
  "\<forall>c \<in> set s. \<not> (0xD800 \<le> c \<and> c \<le> 0xDFFF) \<Longrightarrow> utf8_stdout tr s = None"
  unfolding utf8_stdout_def by (rule encode_error_none)

text \<open>
  Claim C2, as the specification states it, fails when a text of the block cannot be
  printed. A class that is a lone surrogate is legal in a JSON document (the escape
  \<^verbatim>\<open>\ud800\<close>) and has no UTF-8 encoding: on a UTF-8 standard output the topic matches, three
  lines of the block are printed, and the \<^verbatim>\<open>print\<close> of line 49 raises
  \<^verbatim>\<open>UnicodeEncodeError\<close>, which leaves the loop body.
\<close>

theorem detection_block_printed_counterexample:
  "process_line (demo Exhausted \<lparr>stdout := utf8_stdout\<rparr>) (Str (ascii ''data: '' @ surrogate_payload)) [] =
     (Inl (UnicodeEncodeError
        (quoted (ascii ''utf-8'') @ ascii '' codec can'' @ [39] @ ascii ''t encode character '' @
         quoted ([92] @ ascii ''ud800'') @ ascii '' in position 14: surrogates not allowed'')),
      [Print ([0x1F4E8] @ ascii '' data: '' @ surrogate_payload),
       Loads surrogate_payload,
       Print ([0x1F3AF] @ ascii '' OBJECT DETECTION EVENT!''),
       Print (ascii ''   '' @ [0x23F0] @ ascii '' Time: Unknown''),
       Print (ascii ''   '' @ [0x1F4C2] @ ascii '' Topic: VideoAnalytics/ObjectDetected'')])"
proof -
  let ?rt = "demo Exhausted \<lparr>stdout := utf8_stdout\<rparr>"
  let ?d = "[(ascii ''ObjectClass'', JStr [0xD800])]"
  let ?kvs = "[(ascii ''topic'', JStr (ascii ''VideoAnalytics/ObjectDetected'')), (ascii ''data'', JDict ?d)]"
  let ?echo = "[0x1F4E8] @ ascii '' '' @ ascii ''data: '' @ surrogate_payload"
  let ?tr2 = "([] @ [Print ?echo]) @ [Loads surrogate_payload]"
  let ?topic = "JStr (ascii ''VideoAnalytics/ObjectDetected'')"
  let ?ts = "JStr (ascii ''Unknown'')"
  have s: "strip (drop 5 (ascii ''data: '' @ surrogate_payload)) \<noteq> []"
    by (simp only: strip_surrogate) (simp add: surrogate_payload_def ascii_def)
  have echo: "stdout ?rt [] ?echo = None"
    by (simp only: demo_update) (rule utf8_stdout_plain, simp add: surrogate_payload_def ascii_def)
  have l: "json_loads ?rt surrogate_payload = Inr (JDict ?kvs)"
    by (simp only: demo_update) (simp add: demo_loads_surrogate surrogate_event_def)
  have t: "dict_get ?kvs (ascii ''topic'') (JStr (ascii ''Unknown'')) = ?topic"
    by (simp add: dict_get_def)
  have d: "dict_get ?kvs (ascii ''data'') (JDict []) = JDict ?d"
    by (simp add: dict_get_def ascii_def)
  have ts: "dict_get ?kvs (ascii ''@timestamp'') (JStr (ascii ''Unknown'')) = ?ts"
    by (simp add: dict_get_def ascii_def)
  have m: "sublist (ascii ''VideoAnalytics'') (ascii ''VideoAnalytics/ObjectDetected'')"
          "sublist (ascii ''ObjectDetected'') (ascii ''VideoAnalytics/ObjectDetected'')"
    by code_simp+
  have hit: "is_detection ?topic = Inr True"
    by (simp add: is_detection_def m)
  have acc: "accepts ?rt ?tr2 (take 3 (block_texts ?rt ?topic ?d ?ts))"
    by (simp add: block_texts_def demo_update utf8_stdout_plain ascii_def)
  have bad: "stdout ?rt (?tr2 @ map Print (take 3 (block_texts ?rt ?topic ?d ?ts)))
      (block_texts ?rt ?topic ?d ?ts ! 3) =
      Some (UnicodeEncodeError
        (quoted (ascii ''utf-8'') @ ascii '' codec can'' @ [39] @ ascii ''t encode character '' @
         quoted ([92] @ ascii ''ud800'') @ ascii '' in position 14: surrogates not allowed''))"
    by (simp add: block_texts_def demo_update utf8_stdout_def encode_error_def escaped_def dict_get_def
        hex_numeral hex_digit_def quoted_def ascii_def digits_small digits_big)
  have "process_line ?rt (Str (ascii ''data: '' @ surrogate_payload)) [] =
     (Inl (UnicodeEncodeError
        (quoted (ascii ''utf-8'') @ ascii '' codec can'' @ [39] @ ascii ''t encode character '' @
         quoted ([92] @ ascii ''ud800'') @ ascii '' in position 14: surrogates not allowed'')),
      ?tr2 @ map Print (take 3 (block_texts ?rt ?topic ?d ?ts)))"
    by (simp only: process_line_data[OF data_prefix s echo] strip_surrogate handle_event_dict[OF l] t d ts hit
        detection_block_refused[OF acc bad])
       simp
  then show ?thesis
    by (simp add: block_texts_def ascii_def)
qed

subsection \<open>The example of the specification\<close>






end
